theory Spec2Isabelle
  imports Complex_Main
begin

section \<open>Exceptions and effects\<close>

text \<open>
  A Python exception is kept as its class name and the text \<open>str(e)\<close> gives for it.
  The values of \<open>pyexc\<close> are instances of Python's \<open>Exception\<close> class, the ones an
  \<open>except Exception\<close> clause catches; \<open>KeyboardInterrupt\<close> and \<open>SystemExit\<close>, which the
  interpreter raises from outside the pipeline, are not values of this type.
\<close>

datatype pyexc = PyExc (exc_class: string) (exc_str: string)

text \<open>
  A statement that may raise and that changes the world: it returns either the exception
  (\<open>Inl\<close>) or its value (\<open>Inr\<close>), and the world as it is afterwards. What a statement did
  before it raised stays done.
\<close>

type_synonym ('a, 's) prog = "'s \<Rightarrow> (pyexc + 'a) \<times> 's"

definition ret :: "'a \<Rightarrow> ('a, 's) prog" where
  "ret x = (\<lambda>s. (Inr x, s))"

definition raise_exc :: "pyexc \<Rightarrow> ('a, 's) prog" where
  "raise_exc e = (\<lambda>s. (Inl e, s))"

definition pure_call :: "pyexc + 'a \<Rightarrow> ('a, 's) prog" where
  "pure_call r = (\<lambda>s. (r, s))"

definition andthen :: "('a, 's) prog \<Rightarrow> ('a \<Rightarrow> ('b, 's) prog) \<Rightarrow> ('b, 's) prog" where
  "andthen m f = (\<lambda>s. case m s of (Inl e, s') \<Rightarrow> (Inl e, s') | (Inr x, s') \<Rightarrow> f x s')"

definition try_except :: "('a, 's) prog \<Rightarrow> (pyexc \<Rightarrow> ('a, 's) prog) \<Rightarrow> ('a, 's) prog" where
  "try_except m h = (\<lambda>s. case m s of (Inl e, s') \<Rightarrow> h e s' | (Inr x, s') \<Rightarrow> (Inr x, s'))"


section \<open>Strings and paths\<close>

text \<open>\<open>repr\<close> of a string that holds no quote and no backslash.\<close>

definition py_repr :: "string \<Rightarrow> string" where
  "py_repr s = [CHR 0x27] @ s @ [CHR 0x27]"

definition KeyError :: "string \<Rightarrow> pyexc" where
  "KeyError k = PyExc ''KeyError'' (py_repr k)"

fun nat_str :: "nat \<Rightarrow> string" where
  "nat_str n = (if n < 10 then [char_of (48 + n)]
                else nat_str (n div 10) @ [char_of (48 + n mod 10)])"

definition int_str :: "int \<Rightarrow> string" where
  "int_str i = (if i < 0 then CHR ''-'' # nat_str (nat (- i)) else nat_str (nat i))"

text \<open>\<open>str.lower\<close> and \<open>str.upper\<close> on the ASCII letters; other characters stay.\<close>

definition lower_char :: "char \<Rightarrow> char" where
  "lower_char c = (let n = (of_char c :: nat) in if 65 \<le> n \<and> n \<le> 90 then char_of (n + 32) else c)"

definition upper_char :: "char \<Rightarrow> char" where
  "upper_char c = (let n = (of_char c :: nat) in if 97 \<le> n \<and> n \<le> 122 then char_of (n - 32) else c)"

definition lower :: "string \<Rightarrow> string" where
  "lower s = map lower_char s"

definition upper :: "string \<Rightarrow> string" where
  "upper s = map upper_char s"

definition startswith :: "string \<Rightarrow> string \<Rightarrow> bool" where
  "startswith s t = (take (length t) s = t)"

text \<open>
  \<open>pathlib\<close> on a POSIX system. A path is the string it was built from; \<open>path_parts\<close>
  are its components as \<open>Path\<close> normalises them (empty components and \<open>.\<close> dropped).
\<close>

fun split_on :: "char \<Rightarrow> string \<Rightarrow> string list" where
  "split_on c [] = [[]]"
| "split_on c (x # xs) =
     (if x = c then [] # split_on c xs
      else (case split_on c xs of [] \<Rightarrow> [[x]] | y # ys \<Rightarrow> (x # y) # ys))"

fun join_with :: "string \<Rightarrow> string list \<Rightarrow> string" where
  "join_with sep [] = []"
| "join_with sep [x] = x"
| "join_with sep (x # y # ys) = x @ sep @ join_with sep (y # ys)"

definition path_parts :: "string \<Rightarrow> string list" where
  "path_parts p = filter (\<lambda>s. s \<noteq> [] \<and> s \<noteq> ''.'') (split_on CHR ''/'' p)"

definition is_absolute :: "string \<Rightarrow> bool" where
  "is_absolute p = (case p of [] \<Rightarrow> False | c # _ \<Rightarrow> c = CHR ''/'')"

definition render_path :: "bool \<Rightarrow> string list \<Rightarrow> string" where
  "render_path ab ps =
     (if ab then CHR ''/'' # join_with ''/'' ps
      else if ps = [] then ''.'' else join_with ''/'' ps)"

definition path_str :: "string \<Rightarrow> string" where
  "path_str p = render_path (is_absolute p) (path_parts p)"

definition path_name :: "string \<Rightarrow> string" where
  "path_name p = (case rev (path_parts p) of [] \<Rightarrow> [] | n # _ \<Rightarrow> n)"

fun rfind :: "char \<Rightarrow> string \<Rightarrow> nat option" where
  "rfind c [] = None"
| "rfind c (x # xs) =
     (case rfind c xs of Some i \<Rightarrow> Some (Suc i)
      | None \<Rightarrow> if x = c then Some 0 else None)"

definition path_suffix :: "string \<Rightarrow> string" where
  "path_suffix p =
     (let name = path_name p in
      case rfind CHR ''.'' name of
        None \<Rightarrow> []
      | Some i \<Rightarrow> if 0 < i \<and> i + 1 < length name then drop i name else [])"

definition path_stem :: "string \<Rightarrow> string" where
  "path_stem p =
     (let name = path_name p in
      case rfind CHR ''.'' name of
        None \<Rightarrow> name
      | Some i \<Rightarrow> if 0 < i \<and> i + 1 < length name then take i name else name)"

definition path_parent :: "string \<Rightarrow> string" where
  "path_parent p = render_path (is_absolute p) (butlast (path_parts p))"

definition path_join :: "string \<Rightarrow> string \<Rightarrow> string" where
  "path_join a b =
     (if is_absolute b then path_str b
      else render_path (is_absolute a) (path_parts a @ path_parts b))"

fun inits :: "'a list \<Rightarrow> 'a list list" where
  "inits [] = [[]]"
| "inits (x # xs) = [] # map ((#) x) (inits xs)"

text \<open>The path itself and every directory above it.\<close>

definition path_ancestors :: "string \<Rightarrow> string list" where
  "path_ancestors p = map (render_path (is_absolute p)) (inits (path_parts p))"

section \<open>Data\<close>

subsection \<open>The audio side (obrabotka.py)\<close>

record AudioInfo =
  source_path :: string
  processed_path :: string
  duration :: real
  sample_rate :: int
  channels :: int
  format :: string
  size_mb :: real

text \<open>
  A \<open>pydub.AudioSegment\<close>: \<open>len(audio)\<close> is its length in milliseconds and a slice
  \<open>audio[a:b]\<close> is taken in milliseconds, so the sound is kept as one entry per
  millisecond.
\<close>

record AudioSegment =
  ms :: "int list"
  seg_channels :: int
  frame_rate :: int

text \<open>A numpy array of samples, as \<open>librosa.load\<close> returns it: one- or two-dimensional.\<close>

datatype ndarray = Array1 "real list" | Array2 "real list list"

record sf_info =
  samplerate :: int
  sf_channels :: int
  frames :: int
  sf_format :: string

subsection \<open>The configuration\<close>

text \<open>
  The configuration is a mapping with up to three sections. A section that is absent is
  \<open>None\<close>; one that is present is taken to hold the keys the code reads.
\<close>

record subtitle_settings =
  max_chars_per_line :: int
  max_lines :: int
  min_duration :: real
  max_duration :: real

record audio_preprocessing =
  normalize :: bool
  noise_reduction :: bool
  target_channels :: int
  target_sample_rate :: int

record output_formats =
  enabled :: "string list"

record config =
  cfg_subtitle_settings :: "subtitle_settings option"
  cfg_audio_preprocessing :: "audio_preprocessing option"
  cfg_output_formats :: "output_formats option"

text \<open>\<open>config[key]\<close>: a \<open>KeyError\<close> when the section is absent.\<close>

definition section_of :: "string \<Rightarrow> 'a option \<Rightarrow> pyexc + 'a" where
  "section_of key s = (case s of None \<Rightarrow> Inl (KeyError key) | Some v \<Rightarrow> Inr v)"

subsection \<open>The pipeline's values (main.py)\<close>

text \<open>
  What \<open>audio_processor.process\<close> hands to \<open>process_file\<close>, which reads it by
  subscript (\<open>audio_info['duration']\<close>): a mapping with the keys of \<open>AudioInfo\<close>, or an
  \<open>AudioInfo\<close> object, which has no subscript.
\<close>

datatype audio_value = InfoDict AudioInfo | InfoObject AudioInfo

definition not_subscriptable :: pyexc where
  "not_subscriptable =
     PyExc ''TypeError'' (py_repr ''AudioInfo'' @ '' object is not subscriptable'')"

definition subscript :: "audio_value \<Rightarrow> (AudioInfo \<Rightarrow> 'a) \<Rightarrow> pyexc + 'a" where
  "subscript v field =
     (case v of
        InfoDict d \<Rightarrow> Inr (field d)
      | InfoObject _ \<Rightarrow> Inl not_subscriptable)"

record segment =
  seg_start :: real
  seg_end :: real
  seg_text :: string

record transcription =
  tr_provider :: "string option"
  tr_language :: "string option"
  raw_segments :: "segment list"

record processed_data =
  segments :: "segment list"
  words :: "string list option"

record quality_report =
  total_issues :: int
  errors :: "string list"
  warnings :: "string list"

record transcription_stats =
  stats_words :: nat
  stats_segments :: nat
  stats_provider :: string
  stats_language :: string

text \<open>
  The lines of the two reports. The labels of the source are fixed Russian text; a
  constructor stands for the label and carries the values the line interpolates. How a
  number is printed (\<open>:.1f\<close>) and the time stamp of the last line are not modelled.
\<close>

datatype report_line =
    RRule | RTitle
  | SourceFile string | Duration real | Size real | Format string
  | AsrHeader | Provider string | Language string | WordsRecognised nat | Segments nat
  | QualityHeader | TotalIssues int | Errors nat | Warnings nat
  | WarningsHeader | ErrorsHeader | Bullet string
  | FilesHeader | OutputFile string string
  | StatisticsHeader | TotalChars nat | CharsPerSecond real | WordsPerMinute real
  | Generated

datatype batch_line =
    BRule | BTitle
  | TotalFiles nat | Succeeded nat | WithErrors nat
  | BStatisticsHeader
  | TotalDuration real | TotalWords nat | BWordsPerMinute real
  | FailedHeader | FailureLine string string

text \<open>The result mapping of \<open>process_file\<close>; \<open>success\<close> is its \<open>'success'\<close> key.\<close>

datatype result =
    Success (input_file: string) (output_files: "(string \<times> string) list") (report: string)
      (audio_info: audio_value) (stats: transcription_stats) (quality: quality_report)
  | Failure (error: string) (input_file: string)

fun success :: "result \<Rightarrow> bool" where
  "success (Success _ _ _ _ _ _) = True"
| "success (Failure _ _) = False"

section \<open>The world\<close>

datatype content =
    Text string
  | Sound AudioSegment
  | Samples "real list" int
  | FileReport "report_line list"
  | BatchReport "batch_line list"

text \<open>
  The file system, as far as the program makes it: the directories that exist, and the
  files the program has created, oldest first (a later entry for a path overwrites an
  earlier one).
\<close>

record filesys =
  dirs :: "string set"
  files :: "(string \<times> content) list"

text \<open>
  The calls the pipeline makes to its components, the opening of the configuration file
  and what the logger's error channel receives, in order. The components are not part of
  the sources; the model records that they were called and with what.
\<close>

datatype call =
    OpenConfig string
  | AudioProcess string string
  | SelectProvider real real
  | Transcribe string string "string option"
  | PostProcess
  | QualityCheck "segment list"
  | AutoCorrect "segment list"
  | FormatSegments "segment list" string
  | LogError pyexc

record world =
  fsys :: filesys
  calls :: "call list"

definition in_fs :: "('a, filesys) prog \<Rightarrow> ('a, world) prog" where
  "in_fs m = (\<lambda>w. case m (fsys w) of (r, f) \<Rightarrow> (r, w\<lparr>fsys := f\<rparr>))"

definition record_call :: "call \<Rightarrow> (unit, world) prog" where
  "record_call c = (\<lambda>w. (Inr (), w\<lparr>calls := calls w @ [c]\<rparr>))"

text \<open>
  The libraries and the operating system. Reading is by oracle: what a library returns
  for a path, or the exception it raises. Writing changes the file system, and may fail
  for a reason of the system's (the \<open>_err\<close> oracles: permissions, a full disk, a codec).
\<close>

record libs =
  mkdir_err :: "string \<Rightarrow> pyexc option"
  write_err :: "string \<Rightarrow> pyexc option"
  remove_err :: "string \<Rightarrow> pyexc option"
  rmtree_err :: "string \<Rightarrow> pyexc option"
  mkdtemp :: "pyexc + string"
  from_file :: "string \<Rightarrow> pyexc + AudioSegment"
  get_duration :: "string \<Rightarrow> pyexc + real"
  sound_file :: "string \<Rightarrow> pyexc + sf_info"
  getsize :: "string \<Rightarrow> pyexc + nat"
  ffmpeg_run :: "string \<Rightarrow> int \<Rightarrow> int \<Rightarrow> pyexc + AudioSegment"
  pydub_normalize :: "AudioSegment \<Rightarrow> pyexc + AudioSegment"
  noisereduce_installed :: bool
  librosa_load :: "string \<Rightarrow> pyexc + ndarray \<times> int"
  to_mono :: "real list list \<Rightarrow> real list"
  reduce_noise_fn :: "real list \<Rightarrow> int \<Rightarrow> real list \<Rightarrow> pyexc + real list"
  yaml_load :: "string \<Rightarrow> pyexc + config"
  os_path_exists :: "string \<Rightarrow> bool"
  os_path_isdir :: "string \<Rightarrow> bool"
  glob_fn :: "string \<Rightarrow> string \<Rightarrow> string list"
  is_file_fn :: "string \<Rightarrow> bool"

definition FileNotFoundError :: "string \<Rightarrow> pyexc" where
  "FileNotFoundError p =
     PyExc ''FileNotFoundError'' (''[Errno 2] No such file or directory: '' @ py_repr p)"

definition file_exists :: "filesys \<Rightarrow> string \<Rightarrow> bool" where
  "file_exists f p = (p \<in> fst ` set (files f))"

text \<open>
  Creating a file (\<open>Path.write_text\<close>, \<open>AudioSegment.export\<close>, \<open>soundfile.write\<close>): the
  directory it goes into must exist.
\<close>

definition create_ok :: "libs \<Rightarrow> filesys \<Rightarrow> string \<Rightarrow> bool" where
  "create_ok L f p = (path_parent p \<in> dirs f \<and> write_err L p = None)"

definition create_file :: "libs \<Rightarrow> string \<Rightarrow> content \<Rightarrow> (unit, filesys) prog" where
  "create_file L p c = (\<lambda>f.
     if path_parent p \<notin> dirs f then (Inl (FileNotFoundError p), f)
     else (case write_err L p of
             Some e \<Rightarrow> (Inl e, f)
           | None \<Rightarrow> (Inr (), f\<lparr>files := files f @ [(p, c)]\<rparr>)))"

text \<open>\<open>Path(p).mkdir(parents=True, exist_ok=True)\<close>.\<close>

definition mkdir_parents :: "libs \<Rightarrow> string \<Rightarrow> (unit, filesys) prog" where
  "mkdir_parents L p = (\<lambda>f.
     case mkdir_err L p of
       Some e \<Rightarrow> (Inl e, f)
     | None \<Rightarrow> (Inr (), f\<lparr>dirs := dirs f \<union> set (path_ancestors p)\<rparr>))"

text \<open>\<open>os.remove(p)\<close>.\<close>

definition os_remove :: "libs \<Rightarrow> string \<Rightarrow> (unit, filesys) prog" where
  "os_remove L p = (\<lambda>f.
     if \<not> file_exists f p then (Inl (FileNotFoundError p), f)
     else (case remove_err L p of
             Some e \<Rightarrow> (Inl e, f)
           | None \<Rightarrow> (Inr (), f\<lparr>files := filter (\<lambda>(q, _). q \<noteq> p) (files f)\<rparr>)))"



section \<open>obrabotka.py: AudioProcessor\<close>

record AudioProcessor =
  ap_config :: config
  temp_dir :: string


definition SUPPORTED_FORMATS :: "string list" where
  "SUPPORTED_FORMATS =
     [''.mp3'', ''.wav'', ''.m4a'', ''.flac'', ''.ogg'', ''.mp4'', ''.avi'', ''.mkv'', ''.mov'']"

definition is_supported_format :: "string \<Rightarrow> bool" where
  "is_supported_format filepath = (lower (path_suffix filepath) \<in> set SUPPORTED_FORMATS)"

definition video_extensions :: "string list" where
  "video_extensions = [''.mp4'', ''.avi'', ''.mkv'', ''.mov'', ''.wmv'', ''.flv'']"

definition is_video_file :: "string \<Rightarrow> bool" where
  "is_video_file filepath = (lower (path_suffix filepath) \<in> set video_extensions)"

text \<open>
  The message of the \<open>ValueError\<close> for a format that is not supported: the source's
  Russian label, as the bytes of its UTF-8 encoding, and the path.
\<close>

definition unsupported_format_label :: string where
  "unsupported_format_label = map char_of
     [208, 157, 208, 181, 208, 191, 208, 190, 208, 180, 208, 180, 208, 181, 209, 128, 208,
      182, 208, 184, 208, 178, 208, 176, 208, 181, 208, 188, 209, 139, 208, 185, 32, 209,
      132, 208, 190, 209, 128, 208, 188, 208, 176, 209, 130, 32, 209, 132, 208, 176, 208,
      185, 208, 187, 208, 176, 58, 32 :: nat]"

definition unsupported_format :: "string \<Rightarrow> pyexc" where
  "unsupported_format input_path = PyExc ''ValueError'' (unsupported_format_label @ input_path)"

subsection \<open>analyze_audio\<close>

text \<open>
  The one place where an \<open>AudioInfo\<close> is constructed; \<open>processed_path\<close> is the empty
  string there. The handler logs and raises the exception again.
\<close>

definition analyze_audio :: "libs \<Rightarrow> string \<Rightarrow> (AudioInfo, filesys) prog" where
  "analyze_audio L filepath =
     try_except
       (andthen (pure_call (get_duration L filepath)) (\<lambda>dur.
        andthen (pure_call (sound_file L filepath)) (\<lambda>f.
        andthen (pure_call (getsize L filepath)) (\<lambda>size_bytes.
        ret \<lparr>source_path = filepath,
             processed_path = [],
             duration = dur,
             sample_rate = samplerate f,
             channels = sf_channels f,
             format = sf_format f,
             size_mb = real size_bytes / (1024 * 1024)\<rparr>))))
       (\<lambda>e. raise_exc e)"

subsection \<open>extract_audio_from_video and prepare_audio_file\<close>

text \<open>
  \<open>ffmpeg\<close> writes the file itself; with no directory to write into it fails with its
  own error.
\<close>

definition ffmpeg_Error :: pyexc where
  "ffmpeg_Error = PyExc ''Error'' ''ffmpeg error (see stderr output for detail)''"

definition extract_audio_from_video ::
  "libs \<Rightarrow> AudioProcessor \<Rightarrow> string \<Rightarrow> string option \<Rightarrow> (string, filesys) prog"
where
  "extract_audio_from_video L ap video_path output_dir =
     (let out_dir = (case output_dir of None \<Rightarrow> temp_dir ap | Some d \<Rightarrow> d);
          output_path = path_join out_dir (path_stem video_path @ ''_audio.wav'')
      in try_except
           (andthen (pure_call (section_of ''audio_preprocessing''
                                  (cfg_audio_preprocessing (ap_config ap)))) (\<lambda>pre.
            andthen (pure_call (ffmpeg_run L video_path (target_channels pre)
                                  (target_sample_rate pre))) (\<lambda>sound.
            andthen (\<lambda>f. if path_parent output_path \<notin> dirs f then (Inl ffmpeg_Error, f)
                          else (Inr (), f\<lparr>files := files f @ [(output_path, Sound sound)]\<rparr>)) (\<lambda>_.
            ret output_path))))
           (\<lambda>e. raise_exc e))"

definition export :: "libs \<Rightarrow> AudioSegment \<Rightarrow> string \<Rightarrow> (unit, filesys) prog" where
  "export L a p = create_file L p (Sound a)"

definition prepare_audio_file ::
  "libs \<Rightarrow> AudioProcessor \<Rightarrow> string \<Rightarrow> string option \<Rightarrow> (string, filesys) prog"
where
  "prepare_audio_file L ap audio_path output_dir =
     (let out_dir = (case output_dir of None \<Rightarrow> temp_dir ap | Some d \<Rightarrow> d);
          output_path = path_join out_dir (path_stem audio_path @ ''_prepared.wav'')
      in try_except
           (andthen (pure_call (from_file L audio_path)) (\<lambda>audio.
            andthen (pure_call (section_of ''audio_preprocessing''
                                  (cfg_audio_preprocessing (ap_config ap)))) (\<lambda>pre.
              let rate = target_sample_rate pre;
                  chans = target_channels pre;
                  audio1 = (if chans = 1 \<and> 1 < seg_channels audio
                            then audio\<lparr>seg_channels := 1\<rparr> else audio);
                  audio2 = (if frame_rate audio1 \<noteq> rate
                            then audio1\<lparr>frame_rate := rate\<rparr> else audio1)
              in andthen (export L audio2 output_path) (\<lambda>_.
                 ret output_path))))
           (\<lambda>e. raise_exc e))"

subsection \<open>normalize_audio and reduce_noise\<close>

definition normalized_path :: "string \<Rightarrow> string" where
  "normalized_path audio_path =
     path_join (path_parent audio_path) (path_stem audio_path @ ''_normalized.wav'')"

text \<open>The body of the \<open>try\<close> of \<open>normalize_audio\<close>.\<close>

definition normalize_audio_try :: "libs \<Rightarrow> AudioProcessor \<Rightarrow> string \<Rightarrow> (string, filesys) prog" where
  "normalize_audio_try L ap audio_path =
     (let output_path = normalized_path audio_path in
      andthen (pure_call (from_file L audio_path)) (\<lambda>audio.
      andthen (pure_call (pydub_normalize L audio)) (\<lambda>normalized.
      andthen (export L normalized output_path) (\<lambda>_.
      andthen (if startswith audio_path (temp_dir ap)
               then os_remove L audio_path else ret ()) (\<lambda>_.
      ret output_path)))))"

definition normalize_audio :: "libs \<Rightarrow> AudioProcessor \<Rightarrow> string \<Rightarrow> (string, filesys) prog" where
  "normalize_audio L ap audio_path =
     try_except (normalize_audio_try L ap audio_path) (\<lambda>e. ret audio_path)"

text \<open>\<open>int(0.5 * sample_rate)\<close>: half the rate, cut towards zero.\<close>

definition half_rate :: "int \<Rightarrow> int" where
  "half_rate sr = (if 0 \<le> sr then sr div 2 else - ((- sr) div 2))"

text \<open>\<open>xs[:n]\<close>.\<close>

definition py_take :: "'a list \<Rightarrow> int \<Rightarrow> 'a list" where
  "py_take xs n = (if 0 \<le> n then take (nat n) xs else take (length xs - nat (- n)) xs)"

definition is_ImportError :: "pyexc \<Rightarrow> bool" where
  "is_ImportError e = (exc_class e = ''ImportError'' \<or> exc_class e = ''ModuleNotFoundError'')"

definition import_noisereduce :: "libs \<Rightarrow> (unit, filesys) prog" where
  "import_noisereduce L =
     (if noisereduce_installed L then ret ()
      else raise_exc (PyExc ''ModuleNotFoundError''
                        (''No module named '' @ py_repr ''noisereduce'')))"

definition denoised_path :: "string \<Rightarrow> string" where
  "denoised_path audio_path =
     path_join (path_parent audio_path) (path_stem audio_path @ ''_denoised.wav'')"

text \<open>The body of the \<open>try\<close> of \<open>reduce_noise\<close>.\<close>

definition reduce_noise_try :: "libs \<Rightarrow> AudioProcessor \<Rightarrow> string \<Rightarrow> (string, filesys) prog" where
  "reduce_noise_try L ap audio_path =
     andthen (import_noisereduce L) (\<lambda>_.
     andthen (pure_call (librosa_load L audio_path)) (\<lambda>(loaded, rate).
       let audio = (case loaded of Array1 xs \<Rightarrow> xs | Array2 rows \<Rightarrow> to_mono L rows);
           noise_samples = half_rate rate;
           noise_clip = (if noise_samples < int (length audio)
                         then py_take audio noise_samples
                         else py_take audio (int (length audio) div 10))
       in andthen (pure_call (reduce_noise_fn L audio rate noise_clip)) (\<lambda>reduced.
          let output_path = denoised_path audio_path
          in andthen (create_file L output_path (Samples reduced rate)) (\<lambda>_.
             andthen (if startswith audio_path (temp_dir ap)
                      then os_remove L audio_path else ret ()) (\<lambda>_.
             ret output_path)))))"

text \<open>The two handlers, for \<open>ImportError\<close> and for any other exception, return the same.\<close>

definition reduce_noise :: "libs \<Rightarrow> AudioProcessor \<Rightarrow> string \<Rightarrow> (string, filesys) prog" where
  "reduce_noise L ap audio_path =
     try_except (reduce_noise_try L ap audio_path)
       (\<lambda>e. if is_ImportError e then ret audio_path else ret audio_path)"

subsection \<open>process\<close>

text \<open>
  The \<open>AudioInfo\<close> that \<open>analyze_audio\<close> made is the object \<open>process\<close> returns; each
  assignment to \<open>audio_info.processed_path\<close> is a record update (\<open>info1\<close>, \<open>info2\<close>,
  \<open>info3\<close> are the same object, one assignment later each).
\<close>

definition process ::
  "libs \<Rightarrow> AudioProcessor \<Rightarrow> string \<Rightarrow> string option \<Rightarrow> (AudioInfo, filesys) prog"
where
  "process L ap input_path output_dir =
     (if \<not> is_supported_format input_path then raise_exc (unsupported_format input_path)
      else
        andthen (analyze_audio L input_path) (\<lambda>info.
        andthen (if is_video_file input_path
                 then extract_audio_from_video L ap input_path output_dir
                 else prepare_audio_file L ap input_path output_dir) (\<lambda>path1.
          let info1 = info\<lparr>processed_path := path1\<rparr> in
          andthen (pure_call (section_of ''audio_preprocessing''
                                (cfg_audio_preprocessing (ap_config ap)))) (\<lambda>pre.
          andthen (if normalize pre
                   then andthen (normalize_audio L ap path1) (\<lambda>p.
                          ret (p, info1\<lparr>processed_path := p\<rparr>))
                   else ret (path1, info1)) (\<lambda>(path2, info2).
          andthen (if noise_reduction pre
                   then andthen (reduce_noise L ap path2) (\<lambda>p.
                          ret (p, info2\<lparr>processed_path := p\<rparr>))
                   else ret (path2, info2)) (\<lambda>(path3, info3).
          ret info3))))))"

subsection \<open>split_large_file\<close>

text \<open>\<open>range(start, stop, step)\<close>: a \<open>ValueError\<close> when the step is zero.\<close>

function range_up :: "int \<Rightarrow> int \<Rightarrow> int \<Rightarrow> int list" where
  "range_up i stop step = (if 0 < step \<and> i < stop then i # range_up (i + step) stop step else [])"
  by pat_completeness auto
termination
  by (relation "measure (\<lambda>(i, stop, step). nat (stop - i))") auto

function range_down :: "int \<Rightarrow> int \<Rightarrow> int \<Rightarrow> int list" where
  "range_down i stop step = (if step < 0 \<and> stop < i then i # range_down (i + step) stop step else [])"
  by pat_completeness auto
termination
  by (relation "measure (\<lambda>(i, stop, step). nat (i - stop))") auto

declare range_up.simps [simp del]
declare range_down.simps [simp del]

definition py_range :: "int \<Rightarrow> int \<Rightarrow> int \<Rightarrow> pyexc + int list" where
  "py_range start stop step =
     (if step = 0 then Inl (PyExc ''ValueError'' ''range() arg 3 must not be zero'')
      else if 0 < step then Inr (range_up start stop step)
      else Inr (range_down start stop step))"

text \<open>
  \<open>audio[start_ms:end_ms]\<close> for positions that are not negative; pydub cuts both at the
  length of the segment.
\<close>

definition py_slice :: "AudioSegment \<Rightarrow> int \<Rightarrow> int \<Rightarrow> AudioSegment" where
  "py_slice a start_ms end_ms =
     (let n = int (length (ms a)); s = min start_ms n; e = min end_ms n
      in a\<lparr>ms := take (nat (e - s)) (drop (nat s) (ms a))\<rparr>)"

definition part_path :: "string \<Rightarrow> int \<Rightarrow> string" where
  "part_path audio_path k =
     path_join (path_parent audio_path) (path_stem audio_path @ ''_part'' @ int_str k @ ''.wav'')"

text \<open>The body of the \<open>for\<close> loop, once per element of the range.\<close>

fun export_parts ::
  "libs \<Rightarrow> AudioSegment \<Rightarrow> string \<Rightarrow> int \<Rightarrow> int \<Rightarrow> int list \<Rightarrow> string list \<Rightarrow> (string list, filesys) prog"
where
  "export_parts L audio audio_path duration_ms max_duration_ms [] parts = ret parts"
| "export_parts L audio audio_path duration_ms max_duration_ms (i # rest) parts =
     (let start_ms = i;
          end_ms = min (i + max_duration_ms) duration_ms;
          part = py_slice audio start_ms end_ms;
          pp = part_path audio_path (i div max_duration_ms)
      in andthen (export L part pp)
           (\<lambda>_. export_parts L audio audio_path duration_ms max_duration_ms rest (parts @ [pp])))"

definition split_large_file :: "libs \<Rightarrow> string \<Rightarrow> int \<Rightarrow> (string list, filesys) prog" where
  "split_large_file L audio_path max_duration_s =
     try_except
       (andthen (pure_call (from_file L audio_path)) (\<lambda>audio.
          let duration_ms = int (length (ms audio));
              max_duration_ms = max_duration_s * 1000
          in andthen (pure_call (py_range 0 duration_ms max_duration_ms)) (\<lambda>r.
               export_parts L audio audio_path duration_ms max_duration_ms r [])))
       (\<lambda>e. raise_exc e)"

subsection \<open>cleanup_temp_files\<close>


section \<open>main.py: AutoSubtitleGenerator\<close>

text \<open>
  The five components \<open>setup_components\<close> imports are not in the sources (only
  \<open>AudioProcessor\<close> is, in obrabotka.py); the pipeline is modelled over any components.
  The audio processor works on the file system; the others are known by their interface
  only, as functions that return or raise.
\<close>

record components =
  audio_process :: "string \<Rightarrow> string \<Rightarrow> (audio_value, filesys) prog"
  select_best_provider :: "real \<Rightarrow> real \<Rightarrow> pyexc + string"
  transcribe :: "string \<Rightarrow> string \<Rightarrow> string option \<Rightarrow> pyexc + transcription"
  post_process :: "transcription \<Rightarrow> pyexc + processed_data"
  quality_check :: "segment list \<Rightarrow> pyexc + quality_report"
  auto_correct :: "segment list \<Rightarrow> pyexc + segment list"
  formatter_format :: "segment list \<Rightarrow> string \<Rightarrow> pyexc + string"

record AutoSubtitleGenerator =
  gen_config :: config
  gen_components :: components

text \<open>
  The components with the \<open>AudioProcessor\<close> of obrabotka.py as the audio processor:
  \<open>process_file\<close> passes its output directory, and receives the \<open>AudioInfo\<close> object.
\<close>

definition with_audio_processor :: "libs \<Rightarrow> AudioProcessor \<Rightarrow> components \<Rightarrow> components" where
  "with_audio_processor L ap C =
     C\<lparr>audio_process := (\<lambda>input_path output_dir.
          andthen (process L ap input_path (Some output_dir)) (\<lambda>info. ret (InfoObject info)))\<rparr>"

subsection \<open>Configuration\<close>

definition get_default_config :: config where
  "get_default_config =
     \<lparr>cfg_subtitle_settings =
        Some \<lparr>max_chars_per_line = 42, max_lines = 2, min_duration = 1.0, max_duration = 4.0\<rparr>,
      cfg_audio_preprocessing = None,
      cfg_output_formats = None\<rparr>"

text \<open>\<open>yaml_load\<close> is \<open>open\<close> and \<open>yaml.safe_load\<close> together.\<close>

definition load_config :: "libs \<Rightarrow> string \<Rightarrow> (config, world) prog" where
  "load_config L config_path =
     try_except
       (andthen (record_call (OpenConfig config_path)) (\<lambda>_.
        pure_call (yaml_load L config_path)))
       (\<lambda>e. ret get_default_config)"

text \<open>
  \<open>setup_components\<close>: \<open>S\<close> imports and constructs the components from the configuration;
  it may raise, and it works on the file system (the audio processor makes its temporary
  directory there).
\<close>

definition setup_components ::
  "(config \<Rightarrow> (components, filesys) prog) \<Rightarrow> config \<Rightarrow> (components, world) prog"
where
  "setup_components S cfg = in_fs (S cfg)"

definition AutoSubtitleGenerator_init ::
  "libs \<Rightarrow> (config \<Rightarrow> (components, filesys) prog) \<Rightarrow> string \<Rightarrow> (AutoSubtitleGenerator, world) prog"
where
  "AutoSubtitleGenerator_init L S config_path =
     andthen (load_config L config_path) (\<lambda>cfg.
     andthen (setup_components S cfg) (\<lambda>C.
     ret \<lparr>gen_config = cfg, gen_components = C\<rparr>))"

subsection \<open>process_file\<close>

text \<open>Sections 1 to 5 of the method: the output directory, the audio, the provider,
  the transcription and its post-processing.\<close>

definition transcription_stage ::
  "libs \<Rightarrow> AutoSubtitleGenerator \<Rightarrow> string \<Rightarrow> string \<Rightarrow> string option \<Rightarrow> string \<Rightarrow>
   (audio_value \<times> string \<times> transcription \<times> processed_data, world) prog"
where
  "transcription_stage L g input_path output_dir language provider =
     (let C = gen_components g in
      andthen (in_fs (mkdir_parents L output_dir)) (\<lambda>_.
      andthen (record_call (AudioProcess input_path output_dir)) (\<lambda>_.
      andthen (in_fs (audio_process C input_path output_dir)) (\<lambda>info.
      andthen (if provider = ''auto''
               then andthen (pure_call (subscript info duration)) (\<lambda>d.
                    andthen (pure_call (subscript info size_mb)) (\<lambda>s.
                    andthen (record_call (SelectProvider d s)) (\<lambda>_.
                    pure_call (select_best_provider C d s))))
               else ret provider) (\<lambda>chosen.
      andthen (pure_call (subscript info processed_path)) (\<lambda>path.
      andthen (record_call (Transcribe path chosen language)) (\<lambda>_.
      andthen (pure_call (transcribe C path chosen language)) (\<lambda>tr.
      andthen (record_call PostProcess) (\<lambda>_.
      andthen (pure_call (post_process C tr)) (\<lambda>pd.
      ret (info, chosen, tr, pd)))))))))))"

text \<open>Section 6: the quality check, and the correction when it is called for.\<close>

definition quality_stage ::
  "AutoSubtitleGenerator \<Rightarrow> processed_data \<Rightarrow> (quality_report \<times> processed_data, world) prog"
where
  "quality_stage g pd =
     (let C = gen_components g in
      andthen (record_call (QualityCheck (segments pd))) (\<lambda>_.
      andthen (pure_call (quality_check C (segments pd))) (\<lambda>qr.
      andthen (if 0 < total_issues qr
               then (if errors qr \<noteq> []
                     then andthen (record_call (AutoCorrect (segments pd))) (\<lambda>_.
                          andthen (pure_call (auto_correct C (segments pd))) (\<lambda>segs.
                          ret (pd\<lparr>segments := segs\<rparr>)))
                     else ret pd)
               else ret pd) (\<lambda>pd'.
      ret (qr, pd')))))"

text \<open>\<open>d[k] = v\<close> on a dictionary kept in insertion order.\<close>

fun dict_set :: "'k \<Rightarrow> 'v \<Rightarrow> ('k \<times> 'v) list \<Rightarrow> ('k \<times> 'v) list" where
  "dict_set k v [] = [(k, v)]"
| "dict_set k v ((k', v') # kvs) =
     (if k' = k then (k, v) # kvs else (k', v') # dict_set k v kvs)"

text \<open>Section 7: one file per enabled format.\<close>

fun write_formats ::
  "libs \<Rightarrow> components \<Rightarrow> string \<Rightarrow> string \<Rightarrow> segment list \<Rightarrow> string list \<Rightarrow>
   (string \<times> string) list \<Rightarrow> ((string \<times> string) list, world) prog"
where
  "write_formats L C input_path output_dir segs [] outs = ret outs"
| "write_formats L C input_path output_dir segs (format_name # rest) outs =
     (let output_path = path_join output_dir (path_stem input_path @ ''.'' @ format_name) in
      andthen (record_call (FormatSegments segs format_name)) (\<lambda>_.
      andthen (pure_call (formatter_format C segs format_name)) (\<lambda>body.
      andthen (in_fs (create_file L output_path (Text body))) (\<lambda>_.
      write_formats L C input_path output_dir segs rest
        (dict_set format_name output_path outs)))))"

definition ZeroDivisionError :: pyexc where
  "ZeroDivisionError = PyExc ''ZeroDivisionError'' ''float division by zero''"

text \<open>
  \<open>generate_report\<close>. The name \<open>datetime\<close> is imported only under
  \<open>if __name__ == "__main__"\<close>: when the module is not run as the script
  (\<open>datetime_imported\<close> is false), the last line of the report raises a \<open>NameError\<close>.
\<close>

definition generate_report ::
  "libs \<Rightarrow> bool \<Rightarrow> string \<Rightarrow> audio_value \<Rightarrow> transcription \<Rightarrow> processed_data \<Rightarrow>
   quality_report \<Rightarrow> (string \<times> string) list \<Rightarrow> (unit, world) prog"
where
  "generate_report L datetime_imported report_path info tr pd qr outs =
     andthen (pure_call (subscript info source_path)) (\<lambda>src.
     andthen (pure_call (subscript info duration)) (\<lambda>dur.
     andthen (pure_call (subscript info size_mb)) (\<lambda>size.
     andthen (pure_call (subscript info format)) (\<lambda>fmt.
       let n_words = length (case words pd of None \<Rightarrow> [] | Some ws \<Rightarrow> ws);
           top = [RRule, RTitle, RRule,
                  SourceFile src, Duration dur, Size size, Format fmt,
                  AsrHeader,
                  Provider (case tr_provider tr of None \<Rightarrow> ''unknown'' | Some p \<Rightarrow> p),
                  Language (case tr_language tr of None \<Rightarrow> ''auto'' | Some l \<Rightarrow> l),
                  WordsRecognised n_words, Segments (length (segments pd)),
                  QualityHeader, TotalIssues (total_issues qr),
                  Errors (length (errors qr)), Warnings (length (warnings qr))];
           warning_lines = (if warnings qr \<noteq> []
                            then WarningsHeader # map Bullet (take 5 (warnings qr)) else []);
           error_lines = (if errors qr \<noteq> []
                          then ErrorsHeader # map Bullet (take 5 (errors qr)) else []);
           file_lines = FilesHeader # map (\<lambda>(format_name, filepath).
                                             OutputFile (upper format_name) filepath) outs;
           total_chars = sum_list (map (\<lambda>s. length (seg_text s)) (segments pd))
       in if dur = 0 then raise_exc ZeroDivisionError
          else
            let stat_lines = [StatisticsHeader, TotalChars total_chars,
                              CharsPerSecond (real total_chars / dur)];
                word_lines = (if n_words \<noteq> 0
                              then [WordsPerMinute (real n_words / (dur / 60))] else [])
            in if \<not> datetime_imported
               then raise_exc (PyExc ''NameError''
                                 (''name '' @ py_repr ''datetime'' @ '' is not defined''))
               else in_fs (create_file L report_path
                      (FileReport (top @ warning_lines @ error_lines @ file_lines @
                                   stat_lines @ word_lines @ [RRule, Generated])))))))"

text \<open>Sections 7 and 8, and the result of a file that went through.\<close>

definition output_stage ::
  "libs \<Rightarrow> bool \<Rightarrow> AutoSubtitleGenerator \<Rightarrow> string \<Rightarrow> string \<Rightarrow> audio_value \<Rightarrow> string \<Rightarrow>
   transcription \<Rightarrow> processed_data \<Rightarrow> quality_report \<Rightarrow> (result, world) prog"
where
  "output_stage L datetime_imported g input_path output_dir info chosen tr pd qr =
     andthen (pure_call (section_of ''output_formats'' (cfg_output_formats (gen_config g)))) (\<lambda>fmts.
     andthen (write_formats L (gen_components g) input_path output_dir (segments pd)
                (enabled fmts) []) (\<lambda>outs.
       let report_path = path_join output_dir (path_stem input_path @ ''_report.txt'') in
       andthen (generate_report L datetime_imported report_path info tr pd qr outs) (\<lambda>_.
       ret (Success input_path outs report_path info
              \<lparr>stats_words = length (case words pd of None \<Rightarrow> [] | Some ws \<Rightarrow> ws),
               stats_segments = length (segments pd),
               stats_provider = chosen,
               stats_language = (case tr_language tr of None \<Rightarrow> ''unknown'' | Some l \<Rightarrow> l)\<rparr>
              qr))))"

text \<open>The body of the \<open>try\<close>.\<close>

definition process_file_body ::
  "libs \<Rightarrow> bool \<Rightarrow> AutoSubtitleGenerator \<Rightarrow> string \<Rightarrow> string \<Rightarrow> string option \<Rightarrow> string \<Rightarrow>
   (result, world) prog"
where
  "process_file_body L datetime_imported g input_path output_dir language provider =
     andthen (transcription_stage L g input_path output_dir language provider)
       (\<lambda>(info, chosen, tr, pd).
     andthen (quality_stage g pd) (\<lambda>(qr, pd').
     output_stage L datetime_imported g input_path output_dir info chosen tr pd' qr))"

text \<open>
  \<open>process_file\<close>: the handler logs the exception (\<open>logger.error\<close> with \<open>exc_info\<close>) and
  returns the mapping of a failure, \<open>str(e)\<close> under \<open>'error'\<close> and the path under
  \<open>'input_file'\<close>.
\<close>

definition log_and_fail :: "string \<Rightarrow> pyexc \<Rightarrow> (result, world) prog" where
  "log_and_fail input_path e =
     andthen (record_call (LogError e)) (\<lambda>_. ret (Failure (exc_str e) input_path))"

definition process_file ::
  "libs \<Rightarrow> bool \<Rightarrow> AutoSubtitleGenerator \<Rightarrow> string \<Rightarrow> string \<Rightarrow> string option \<Rightarrow> string \<Rightarrow>
   (result, world) prog"
where
  "process_file L datetime_imported g input_path output_dir language provider =
     try_except
       (process_file_body L datetime_imported g input_path output_dir language provider)
       (log_and_fail input_path)"

subsection \<open>batch_process and generate_batch_report\<close>

text \<open>
  \<open>sum(r['audio_info']['duration'] for r in successful)\<close>. The list holds successes
  only; a failure has no \<open>'audio_info'\<close> key.
\<close>

fun sum_durations :: "result list \<Rightarrow> pyexc + real" where
  "sum_durations [] = Inr 0"
| "sum_durations (Success _ _ _ info _ _ # rs) =
     (case subscript info duration of
        Inl e \<Rightarrow> Inl e
      | Inr d \<Rightarrow> (case sum_durations rs of Inl e \<Rightarrow> Inl e | Inr t \<Rightarrow> Inr (d + t)))"
| "sum_durations (Failure _ _ # rs) = Inl (KeyError ''audio_info'')"

definition batch_report_path :: "string \<Rightarrow> string" where
  "batch_report_path output_dir = path_join output_dir ''batch_report.txt''"

definition batch_report_lines :: "result list \<Rightarrow> pyexc + batch_line list" where
  "batch_report_lines results =
     (let successful = filter success results;
          failed = filter (\<lambda>r. \<not> success r) results;
          top = [BRule, BTitle, BRule,
                 TotalFiles (length results), Succeeded (length successful),
                 WithErrors (length failed), BStatisticsHeader];
          failed_lines = (if failed \<noteq> []
                          then FailedHeader # map (\<lambda>fail. FailureLine (input_file fail) (error fail)) failed
                          else [])
      in if successful \<noteq> [] then
           (case sum_durations successful of
              Inl e \<Rightarrow> Inl e
            | Inr total_duration \<Rightarrow>
                let total_words = sum_list (map (\<lambda>r. stats_words (stats r)) successful) in
                if total_duration / 60 = 0 then Inl ZeroDivisionError
                else Inr (top @ [TotalDuration (total_duration / 60), TotalWords total_words,
                                 BWordsPerMinute (real total_words / (total_duration / 60))]
                          @ failed_lines))
         else Inr (top @ failed_lines))"

definition generate_batch_report :: "libs \<Rightarrow> result list \<Rightarrow> string \<Rightarrow> (unit, world) prog" where
  "generate_batch_report L results output_dir =
     andthen (pure_call (batch_report_lines results)) (\<lambda>report_content.
     in_fs (create_file L (batch_report_path output_dir) (BatchReport report_content)))"

text \<open>The inner loop: the files one pattern matches.\<close>

fun process_matches ::
  "libs \<Rightarrow> bool \<Rightarrow> AutoSubtitleGenerator \<Rightarrow> string \<Rightarrow> string list \<Rightarrow> result list \<Rightarrow>
   (result list, world) prog"
where
  "process_matches L dt g output_dir [] results = ret results"
| "process_matches L dt g output_dir (file_path # rest) results =
     (if is_file_fn L file_path
      then andthen (process_file L dt g file_path (path_join output_dir (path_stem file_path))
                      None ''auto'') (\<lambda>r.
           process_matches L dt g output_dir rest (results @ [r]))
      else process_matches L dt g output_dir rest results)"

text \<open>The outer loop: the patterns.\<close>

fun process_patterns ::
  "libs \<Rightarrow> bool \<Rightarrow> AutoSubtitleGenerator \<Rightarrow> string \<Rightarrow> string \<Rightarrow> string list \<Rightarrow> result list \<Rightarrow>
   (result list, world) prog"
where
  "process_patterns L dt g input_dir output_dir [] results = ret results"
| "process_patterns L dt g input_dir output_dir (pattern # rest) results =
     andthen (process_matches L dt g output_dir (glob_fn L input_dir pattern) results) (\<lambda>results'.
     process_patterns L dt g input_dir output_dir rest results')"

definition default_patterns :: "string list" where
  "default_patterns = [''*.mp3'', ''*.wav'', ''*.mp4'', ''*.m4a'']"

definition batch_process ::
  "libs \<Rightarrow> bool \<Rightarrow> AutoSubtitleGenerator \<Rightarrow> string \<Rightarrow> string \<Rightarrow> string list option \<Rightarrow>
   (result list, world) prog"
where
  "batch_process L dt g input_dir output_dir file_patterns =
     (let patterns = (case file_patterns of None \<Rightarrow> default_patterns | Some ps \<Rightarrow> ps) in
      andthen (process_patterns L dt g input_dir output_dir patterns []) (\<lambda>results.
      andthen (generate_batch_report L results output_dir) (\<lambda>_.
      ret results)))"

subsection \<open>main\<close>

text \<open>
  The arguments as \<open>argparse\<close> hands them over (parsing itself is not modelled), and how
  the run ends: \<open>main\<close> returns, it calls \<open>sys.exit\<close>, or an exception that nothing
  catches ends the interpreter, which then exits with status 1.
\<close>

record args =
  arg_input :: string
  arg_output :: string
  arg_language :: "string option"
  arg_provider :: string
  arg_batch :: bool
  arg_config :: string

datatype outcome = Returned | SysExit int | Uncaught pyexc

fun exit_code :: "outcome \<Rightarrow> int" where
  "exit_code Returned = 0"
| "exit_code (SysExit n) = n"
| "exit_code (Uncaught e) = 1"

definition main ::
  "libs \<Rightarrow> (config \<Rightarrow> (components, filesys) prog) \<Rightarrow> args \<Rightarrow> world \<Rightarrow> outcome \<times> world"
where
  "main L S a w =
     (if \<not> os_path_exists L (arg_input a) then (SysExit 1, w)
      else
        (case AutoSubtitleGenerator_init L S (arg_config a) w of
           (Inl e, w1) \<Rightarrow> (SysExit 1, w1)
         | (Inr generator, w1) \<Rightarrow>
             if arg_batch a \<and> os_path_isdir L (arg_input a) then
               (case batch_process L True generator (arg_input a) (arg_output a) None w1 of
                  (Inl e, w2) \<Rightarrow> (Uncaught e, w2)
                | (Inr results, w2) \<Rightarrow> (Returned, w2))
             else
               (case process_file L True generator (arg_input a) (arg_output a)
                       (arg_language a) (arg_provider a) w1 of
                  (Inl e, w2) \<Rightarrow> (Uncaught e, w2)
                | (Inr r, w2) \<Rightarrow> if success r then (Returned, w2) else (SysExit 1, w2))))"

section \<open>Reading the record of calls\<close>

fun is_OpenConfig :: "call \<Rightarrow> bool" where
  "is_OpenConfig (OpenConfig _) = True"
| "is_OpenConfig _ = False"

text \<open>The calls that are neither the opening of the configuration, nor a call of the
  quality checker, nor a call of the formatter.\<close>

fun is_plain :: "call \<Rightarrow> bool" where
  "is_plain (AudioProcess _ _) = True"
| "is_plain (SelectProvider _ _) = True"
| "is_plain (Transcribe _ _ _) = True"
| "is_plain PostProcess = True"
| "is_plain (LogError _) = True"
| "is_plain _ = False"

text \<open>A statement that only adds calls to the record, all of them from the set \<open>A\<close>.\<close>

definition appends :: "call set \<Rightarrow> ('a, world) prog \<Rightarrow> bool" where
  "appends A m = (\<forall>w. \<exists>new. calls (snd (m w)) = calls w @ new \<and> set new \<subseteq> A)"

text \<open>The segment sequences that a record of calls gives to the quality check, to the
  correction, and to the formatter, in order.\<close>

fun checks_in :: "call list \<Rightarrow> segment list list" where
  "checks_in [] = []"
| "checks_in (QualityCheck s # cs) = s # checks_in cs"
| "checks_in (_ # cs) = checks_in cs"

fun corrections_in :: "call list \<Rightarrow> segment list list" where
  "corrections_in [] = []"
| "corrections_in (AutoCorrect s # cs) = s # corrections_in cs"
| "corrections_in (_ # cs) = corrections_in cs"

fun formatted_in :: "call list \<Rightarrow> segment list list" where
  "formatted_in [] = []"
| "formatted_in (FormatSegments s _ # cs) = s # formatted_in cs"
| "formatted_in (_ # cs) = formatted_in cs"

section \<open>Sample values\<close>

text \<open>A small world in which nothing fails, for the examples below.\<close>

definition demo_audio :: AudioSegment where
  "demo_audio = \<lparr>ms = replicate 1500 0, seg_channels = 2, frame_rate = 44100\<rparr>"

definition demo_libs :: libs where
  "demo_libs =
     \<lparr>mkdir_err = (\<lambda>_. None), write_err = (\<lambda>_. None), remove_err = (\<lambda>_. None),
      rmtree_err = (\<lambda>_. None),
      mkdtemp = Inr ''/tmp/subtitle_audio_x1'',
      from_file = (\<lambda>_. Inr demo_audio),
      get_duration = (\<lambda>_. Inr (3 / 2)),
      sound_file = (\<lambda>_. Inr \<lparr>samplerate = 44100, sf_channels = 2, frames = 66150, sf_format = ''WAV''\<rparr>),
      getsize = (\<lambda>_. Inr 264644),
      ffmpeg_run = (\<lambda>_ _ _. Inr demo_audio),
      pydub_normalize = (\<lambda>a. Inr a),
      noisereduce_installed = False,
      librosa_load = (\<lambda>_. Inr (Array1 [0, 0], 44100)),
      to_mono = (\<lambda>rows. []),
      reduce_noise_fn = (\<lambda>y _ _. Inr y),
      yaml_load = (\<lambda>_. Inl (FileNotFoundError ''config.yaml'')),
      os_path_exists = (\<lambda>_. True),
      os_path_isdir = (\<lambda>_. False),
      glob_fn = (\<lambda>_ _. []),
      is_file_fn = (\<lambda>_. True)\<rparr>"

definition demo_fs :: filesys where
  "demo_fs = \<lparr>dirs = {''.'', ''out''}, files = []\<rparr>"

definition demo_world :: world where
  "demo_world = \<lparr>fsys = demo_fs, calls = []\<rparr>"

definition demo_config :: config where
  "demo_config =
     \<lparr>cfg_subtitle_settings =
        Some \<lparr>max_chars_per_line = 42, max_lines = 2, min_duration = 1, max_duration = 4\<rparr>,
      cfg_audio_preprocessing =
        Some \<lparr>normalize = False, noise_reduction = False,
              target_channels = 1, target_sample_rate = 16000\<rparr>,
      cfg_output_formats = Some \<lparr>enabled = [''srt'']\<rparr>\<rparr>"

definition demo_ap :: AudioProcessor where
  "demo_ap = \<lparr>ap_config = demo_config, temp_dir = ''/tmp/subtitle_audio_x1''\<rparr>"

definition demo_created :: AudioInfo where
  "demo_created =
     \<lparr>source_path = ''talk.wav'', processed_path = [], duration = 3 / 2,
      sample_rate = 44100, channels = 2, format = ''WAV'',
      size_mb = 264644 / (1024 * 1024)\<rparr>"

text \<open>
  Components that succeed: one segment from 0.0 to 0.5 with the text \<open>a\<close>, a quality
  report with one warning and no error, and a correction that would drop every segment
  if it were called.
\<close>

definition demo_segments :: "segment list" where
  "demo_segments = [\<lparr>seg_start = 0, seg_end = 1 / 2, seg_text = ''a''\<rparr>]"

definition demo_report :: quality_report where
  "demo_report = \<lparr>total_issues = 1, errors = [], warnings = [''too-short-duration'']\<rparr>"

definition demo_components :: components where
  "demo_components =
     \<lparr>audio_process = (\<lambda>_ _. ret (InfoDict (demo_created\<lparr>processed_path := ''out/talk_prepared.wav''\<rparr>))),
      select_best_provider = (\<lambda>_ _. Inr ''nexara''),
      transcribe = (\<lambda>_ _ _. Inr \<lparr>tr_provider = Some ''nexara'', tr_language = Some ''en'',
                                raw_segments = demo_segments\<rparr>),
      post_process = (\<lambda>tr. Inr \<lparr>segments = raw_segments tr, words = Some [''a'']\<rparr>),
      quality_check = (\<lambda>_. Inr demo_report),
      auto_correct = (\<lambda>_. Inr []),
      formatter_format = (\<lambda>_ _. Inr ''1'')\<rparr>"

definition demo_generator :: AutoSubtitleGenerator where
  "demo_generator = \<lparr>gen_config = demo_config, gen_components = demo_components\<rparr>"

text \<open>
  A stricter checker, for which the short segment is an error, and a correction that
  stretches it to one second; and a world in which a file has been processed before.
\<close>

definition strict_report :: quality_report where
  "strict_report = \<lparr>total_issues = 1, errors = [''too-short-duration''], warnings = []\<rparr>"

definition repaired_segments :: "segment list" where
  "repaired_segments = [\<lparr>seg_start = 0, seg_end = 1, seg_text = ''a''\<rparr>]"

definition strict_components :: components where
  "strict_components =
     demo_components\<lparr>quality_check := (\<lambda>_. Inr strict_report),
                     auto_correct := (\<lambda>_. Inr repaired_segments)\<rparr>"

definition strict_generator :: AutoSubtitleGenerator where
  "strict_generator = \<lparr>gen_config = demo_config, gen_components = strict_components\<rparr>"

definition later_world :: world where
  "later_world =
     demo_world\<lparr>calls := [AudioProcess ''intro.wav'' ''out'', PostProcess,
                          QualityCheck [], AutoCorrect [], FormatSegments [] ''srt'']\<rparr>"

definition boom :: pyexc where
  "boom = PyExc ''RuntimeError'' ''boom''"

text \<open>Two sets of components that fail with the same exception, at different stages.\<close>

definition fail_in_audio :: AutoSubtitleGenerator where
  "fail_in_audio =
     \<lparr>gen_config = demo_config,
      gen_components = demo_components\<lparr>audio_process := (\<lambda>_ _. raise_exc boom)\<rparr>\<rparr>"

definition fail_in_transcription :: AutoSubtitleGenerator where
  "fail_in_transcription =
     \<lparr>gen_config = demo_config,
      gen_components = demo_components\<lparr>transcribe := (\<lambda>_ _ _. Inl boom)\<rparr>\<rparr>"

text \<open>A set-up that constructs the sample components, whatever the configuration.\<close>

definition demo_setup :: "config \<Rightarrow> (components, filesys) prog" where
  "demo_setup cfg = ret demo_components"

definition demo_args :: args where
  "demo_args =
     \<lparr>arg_input = ''talk.wav'', arg_output = ''out'', arg_language = None,
      arg_provider = ''auto'', arg_batch = False, arg_config = ''config.yaml''\<rparr>"

text \<open>A directory \<open>in\<close> that holds one recording, and the arguments of a batch run on it.\<close>

definition demo_batch_libs :: libs where
  "demo_batch_libs =
     demo_libs\<lparr>os_path_isdir := (\<lambda>_. True),
               glob_fn := (\<lambda>d pattern. if d = ''in'' \<and> pattern = ''*.mp3'' then [''in/a.mp3''] else [])\<rparr>"

definition demo_batch_args :: args where
  "demo_batch_args = demo_args\<lparr>arg_input := ''in'', arg_batch := True\<rparr>"

text \<open>A file system where only the working directory exists.\<close>

definition bare_world :: world where
  "bare_world = \<lparr>fsys = \<lparr>dirs = {''.''}, files = []\<rparr>, calls = []\<rparr>"

text \<open>
  The audio processor of obrabotka.py with the default configuration, and a world in
  which its temporary directory has been made.
\<close>

definition default_ap :: AudioProcessor where
  "default_ap = \<lparr>ap_config = get_default_config, temp_dir = ''/tmp/subtitle_audio_x1''\<rparr>"


section \<open>Properties of obrabotka.py\<close>

subsection \<open>split_large_file\<close>

lemma range_up_eq:
  assumes "0 < M"
  shows "range_up i d M = map (\<lambda>k. i + int k * M) [0..<nat ((d - i + M - 1) div M)]"
  using assms
proof (induction i d M rule: range_up.induct)
  case (1 i stop step)
  show ?case
  proof (cases "i < stop")
    case True
    define q where "q = (stop - (i + step) + step - 1) div step"
    have q0: "0 \<le> q"
      unfolding q_def using True "1.prems" by (simp add: pos_imp_zdiv_nonneg_iff)
    have "(stop - i + step - 1) div step = (stop - (i + step) + step - 1 + step) div step"
      by (simp add: algebra_simps)
    also have "\<dots> = q + 1"
      unfolding q_def using "1.prems" by simp
    finally have n: "nat ((stop - i + step - 1) div step) = Suc (nat q)"
      using q0 by simp
    have ih: "range_up (i + step) stop step = map (\<lambda>k. i + step + int k * step) [0..<nat q]"
      using "1.IH" True "1.prems" unfolding q_def by simp
    have "map (\<lambda>k. i + int k * step) [0..<Suc (nat q)]
          = i # map (\<lambda>k. i + int k * step) (map Suc [0..<nat q])"
      by (simp only: upt_conv_Cons[of 0 "Suc (nat q)"] map_Suc_upt[symmetric]) simp
    also have "\<dots> = i # map (\<lambda>k. i + step + int k * step) [0..<nat q]"
      by (simp add: algebra_simps)
    finally show ?thesis
      using True "1.prems" ih n by (subst range_up.simps) simp
  next
    case False
    then have "stop - i + step - 1 < step" by simp
    moreover have "\<not> 0 < (stop - i + step - 1) div step"
      using calculation "1.prems" by (simp add: pos_imp_zdiv_pos_iff)
    ultimately show ?thesis using False by (subst range_up.simps) simp
  qed
qed

lemma ceiling_div_int:
  fixes d M :: int
  assumes "0 < M"
  shows "\<lceil>real_of_int d / real_of_int M\<rceil> = (d + M - 1) div M"
proof -
  define q where "q = (d + M - 1) div M"
  define r where "r = (d + M - 1) mod M"
  have e: "q * M + r = d + M - 1"
    unfolding q_def r_def by (rule div_mult_mod_eq)
  have r: "0 \<le> r" "r < M"
    unfolding r_def using assms by simp_all
  have lo: "(q - 1) * M < d" and hi: "d \<le> q * M"
    using e r by (simp_all add: left_diff_distrib)
  have "real_of_int ((q - 1) * M) < real_of_int d"
    using lo by (simp only: of_int_less_iff)
  then have 1: "real_of_int q - 1 < real_of_int d / real_of_int M"
    using assms by (simp add: pos_less_divide_eq)
  have "real_of_int d \<le> real_of_int (q * M)"
    using hi by (simp only: of_int_le_iff)
  then have 2: "real_of_int d / real_of_int M \<le> real_of_int q"
    using assms by (simp add: pos_divide_le_eq)
  show ?thesis
    unfolding q_def[symmetric] using 1 2 by (intro ceiling_unique) simp_all
qed

lemma chunks_concat:
  "concat (map (\<lambda>k. take M (drop (k * M) xs)) [0..<n]) = take (n * M) xs"
proof (induction n)
  case 0
  show ?case by simp
next
  case (Suc n)
  have "Suc n * M = n * M + M" by simp
  then have "take (Suc n * M) xs = take (n * M) xs @ take M (drop (n * M) xs)"
    by (simp only: take_add)
  then show ?case using Suc by simp
qed

lemma nat_int_diff: "nat (int x - int y) = x - y"
  by simp

lemma take_min_length: "take (min m (length ys)) ys = take m ys"
  by (simp add: min_def)

lemma py_slice_chunk:
  "ms (py_slice a (int k * int m) (min ((int k + 1) * int m) (int (length (ms a)))))
   = take m (drop (k * m) (ms a))"
proof -
  let ?L = "length (ms a)"
  have km: "int k * int m = int (k * m)" by simp
  have km1: "(int k + 1) * int m = int ((k + 1) * m)" by (simp add: algebra_simps)
  have s: "min (int k * int m) (int ?L) = int (min (k * m) ?L)"
    unfolding km by (simp only: of_nat_min)
  have e: "min (min ((int k + 1) * int m) (int ?L)) (int ?L) = int (min ((k + 1) * m) ?L)"
    unfolding km1 by (simp only: of_nat_min min.right_idem)
  have eq: "ms (py_slice a (int k * int m) (min ((int k + 1) * int m) (int ?L)))
        = take (min ((k + 1) * m) ?L - min (k * m) ?L) (drop (min (k * m) ?L) (ms a))"
    unfolding py_slice_def Let_def by (simp only: s e nat_int_diff nat_int) simp
  show ?thesis
  proof (cases "k * m \<le> ?L")
    case True
    have "min ((k + 1) * m) ?L - k * m = min m (length (drop (k * m) (ms a)))"
      using True by (auto simp: min_def)
    then show ?thesis
      using True eq take_min_length[of m "drop (k * m) (ms a)"] by (simp add: min_absorb1)
  next
    case False
    then show ?thesis using eq by (simp add: min_def)
  qed
qed


lemma parts_count_bounds:
  fixes d M :: int
  assumes "0 < M" and "q = (d + M - 1) div M"
  shows "(q - 1) * M < d" and "d \<le> q * M"
proof -
  define r where "r = (d + M - 1) mod M"
  have e: "q * M + r = d + M - 1"
    unfolding assms(2) r_def by (rule div_mult_mod_eq)
  have r: "0 \<le> r" "r < M"
    unfolding r_def using assms(1) by simp_all
  show "(q - 1) * M < d" and "d \<le> q * M"
    using e r by (simp_all add: left_diff_distrib)
qed

lemma create_file_ok:
  "create_ok L w p \<Longrightarrow> create_file L p c w = (Inr (), w\<lparr>files := files w @ [(p, c)]\<rparr>)"
  by (simp add: create_ok_def create_file_def)

lemma create_ok_files: "create_ok L (w\<lparr>files := fs\<rparr>) p = create_ok L w p"
  by (simp add: create_ok_def)

lemma export_parts_ok:
  assumes "\<forall>i \<in> set rest. create_ok L w (part_path p (i div M))"
  shows "export_parts L a p d M rest parts w =
     (Inr (parts @ map (\<lambda>i. part_path p (i div M)) rest),
      w\<lparr>files := files w @
         map (\<lambda>i. (part_path p (i div M), Sound (py_slice a i (min (i + M) d)))) rest\<rparr>)"
  using assms
proof (induction rest arbitrary: parts w)
  case Nil
  show ?case by (simp add: ret_def)
next
  case (Cons i rest)
  let ?w = "w\<lparr>files := files w @ [(part_path p (i div M), Sound (py_slice a i (min (i + M) d)))]\<rparr>"
  have ok: "\<forall>j \<in> set rest. create_ok L ?w (part_path p (j div M))"
    using Cons.prems by (simp add: create_ok_files)
  have step: "export L (py_slice a i (min (i + M) d)) (part_path p (i div M)) w = (Inr (), ?w)"
    unfolding export_def using Cons.prems by (simp add: create_file_ok)
  show ?case
    using Cons.IH[OF ok] step by (simp add: Let_def andthen_def)
qed

text \<open>
  Claim C9. For a recording of \<open>d\<close> milliseconds and a \<open>max_duration\<close> of \<open>m > 0\<close>
  seconds, when the file loads and every part can be written, \<open>split_large_file\<close>
  returns the paths of exactly \<open>\<lceil>d / (1000 m)\<rceil>\<close> parts, numbered from 0, and part \<open>k\<close> is
  the slice from \<open>k * 1000 m\<close> to \<open>min ((k + 1) * 1000 m) d\<close>. The parts put one after the
  other are the recording; each part starts inside the recording and is at most
  \<open>1000 m\<close> milliseconds long; each part but the last ends where the next one starts, and
  the last one ends at \<open>d\<close>.
\<close>

theorem split_large_file_parts:
  fixes max_duration_s :: int
  defines "M \<equiv> max_duration_s * 1000"
  assumes pos: "0 < max_duration_s"
    and src: "from_file L audio_path = Inr audio"
    and n: "n = nat \<lceil>real (length (ms audio)) / real_of_int (max_duration_s * 1000)\<rceil>"
    and ok: "\<forall>k<n. create_ok L w (part_path audio_path (int k))"
  shows "split_large_file L audio_path max_duration_s w =
           (Inr (map (\<lambda>k. part_path audio_path (int k)) [0..<n]),
            w\<lparr>files := files w @
               map (\<lambda>k. (part_path audio_path (int k),
                          Sound (py_slice audio (int k * M)
                                   (min ((int k + 1) * M) (int (length (ms audio)))))))
                 [0..<n]\<rparr>)
       \<and> concat (map (\<lambda>k. ms (py_slice audio (int k * M)
                                  (min ((int k + 1) * M) (int (length (ms audio))))))
                   [0..<n]) = ms audio
       \<and> (\<forall>k<n. int k * M < int (length (ms audio))
              \<and> min ((int k + 1) * M) (int (length (ms audio))) - int k * M \<le> M)
       \<and> (\<forall>k. Suc k < n \<longrightarrow> min ((int k + 1) * M) (int (length (ms audio))) = int (Suc k) * M)
       \<and> (0 < n \<longrightarrow> min (int n * M) (int (length (ms audio))) = int (length (ms audio)))"
proof -
  let ?d = "int (length (ms audio))"
  define q where "q = (?d + M - 1) div M"
  have M: "0 < M" unfolding M_def using pos by simp
  have q0: "0 \<le> q"
    unfolding q_def using M by (simp add: pos_imp_zdiv_nonneg_iff)
  have nq: "int n = q"
    using n ceiling_div_int[OF M, of ?d] q0 unfolding q_def M_def by simp
  have lo: "(q - 1) * M < ?d" and hi: "?d \<le> q * M"
    using parts_count_bounds[OF M q_def] by simp_all
  have below: "int k * M < ?d" if "k < n" for k
  proof -
    have "int k \<le> q - 1" using that nq by simp
    then have "int k * M \<le> (q - 1) * M" using M by (simp add: mult_right_mono)
    then show ?thesis using lo by simp
  qed
  have rng: "range_up 0 ?d M = map (\<lambda>k. int k * M) [0..<n]"
  proof -
    have "nat ((?d + M - 1) div M) = n"
      using nq unfolding q_def by (metis nat_int)
    then show ?thesis
      using range_up_eq[OF M, of 0 ?d] by simp
  qed
  have oks: "\<forall>i \<in> set (map (\<lambda>k. int k * M) [0..<n]). create_ok L w (part_path audio_path (i div M))"
    using ok M by simp
  have run: "export_parts L audio audio_path ?d M (map (\<lambda>k. int k * M) [0..<n]) [] w =
     (Inr (map (\<lambda>k. part_path audio_path (int k)) [0..<n]),
      w\<lparr>files := files w @
         map (\<lambda>k. (part_path audio_path (int k),
                    Sound (py_slice audio (int k * M) (min ((int k + 1) * M) ?d)))) [0..<n]\<rparr>)"
    using export_parts_ok[OF oks, of audio ?d "[]"] M
    by (simp add: comp_def algebra_simps)
  have first: "split_large_file L audio_path max_duration_s w =
           (Inr (map (\<lambda>k. part_path audio_path (int k)) [0..<n]),
            w\<lparr>files := files w @
               map (\<lambda>k. (part_path audio_path (int k),
                          Sound (py_slice audio (int k * M) (min ((int k + 1) * M) ?d))))
                 [0..<n]\<rparr>)"
    using src M run rng
    by (simp add: split_large_file_def try_except_def andthen_def pure_call_def py_range_def
        Let_def M_def)
  obtain m where m: "M = int m"
    using M by (metis nat_0_le less_imp_le)
  have "concat (map (\<lambda>k. ms (py_slice audio (int k * M) (min ((int k + 1) * M) ?d))) [0..<n])
        = take (n * m) (ms audio)"
    unfolding m by (simp only: py_slice_chunk chunks_concat)
  moreover have "length (ms audio) \<le> n * m"
    using hi nq m by (metis of_nat_le_iff of_nat_mult)
  ultimately have second:
    "concat (map (\<lambda>k. ms (py_slice audio (int k * M) (min ((int k + 1) * M) ?d))) [0..<n]) = ms audio"
    by simp
  have third: "\<forall>k<n. int k * M < ?d \<and> min ((int k + 1) * M) ?d - int k * M \<le> M"
    using below by (simp add: algebra_simps min_def)
  have fourth: "\<forall>k. Suc k < n \<longrightarrow> min ((int k + 1) * M) ?d = int (Suc k) * M"
  proof (intro allI impI)
    fix k
    assume "Suc k < n"
    then have "int (Suc k) * M < ?d" by (rule below)
    then show "min ((int k + 1) * M) ?d = int (Suc k) * M"
      by (simp add: min_def algebra_simps)
  qed
  have fifth: "0 < n \<longrightarrow> min (int n * M) ?d = ?d"
    using hi nq by (simp add: min_def)
  show ?thesis
    using first second third fourth fifth by blast
qed


lemma pp0: "part_path ''out/talk.wav'' 0 = ''out/talk_part0.wav''"
  by code_simp

lemma pp1: "part_path ''out/talk.wav'' 1 = ''out/talk_part1.wav''"
  by code_simp

theorem split_large_file_parts_witness:
  "fst (split_large_file demo_libs ''out/talk.wav'' 1 demo_fs)
     = Inr [''out/talk_part0.wav'', ''out/talk_part1.wav'']"
proof -
  have 1: "(0::int) < 1" by simp
  have 2: "from_file demo_libs ''out/talk.wav'' = Inr demo_audio"
    by (simp add: demo_libs_def)
  have 3: "(2::nat) = nat \<lceil>real (length (ms demo_audio)) / real_of_int (1 * 1000)\<rceil>"
    by (simp add: demo_audio_def)
  have 4: "\<forall>k<2. create_ok demo_libs demo_fs (part_path ''out/talk.wav'' (int k))"
    by (auto simp: less_2_cases_iff pp0 pp1 create_ok_def demo_libs_def demo_fs_def
        path_parent_def path_parts_def render_path_def is_absolute_def)
  have 5: "[0..<2] = [0, 1]" by (simp add: upt_rec)
  show ?thesis
    using split_large_file_parts[OF 1 2 3 4] pp0 pp1 by (simp add: 5)
qed

subsection \<open>try and except\<close>

lemma try_except_total:
  assumes "\<And>e s. \<exists>r s'. h e s = (Inr r, s')"
  shows "\<exists>r s'. try_except m h s = (Inr r, s')"
  using assms by (auto simp: try_except_def split: prod.splits sum.splits)

lemma try_except_caught:
  "m s = (Inl e, s') \<Longrightarrow> try_except m h s = h e s'"
  by (simp add: try_except_def)

lemma try_except_passed:
  "m s = (Inr x, s') \<Longrightarrow> try_except m h s = (Inr x, s')"
  by (simp add: try_except_def)

subsection \<open>normalize_audio and reduce_noise\<close>

text \<open>
  Claim C10. \<open>normalize_audio\<close> and \<open>reduce_noise\<close> never raise: each returns a path.
  Whenever the body of the \<open>try\<close> raises, the path returned is the input path; so it is
  when the file cannot be loaded, when normalisation fails, when the normalised file
  cannot be written, when \<open>noisereduce\<close> is not installed and when \<open>librosa\<close> cannot load
  the file.
\<close>

theorem enhancement_never_raises:
  "(\<exists>r f'. normalize_audio L ap p f = (Inr r, f'))
 \<and> (\<forall>e f'. normalize_audio_try L ap p f = (Inl e, f') \<longrightarrow> normalize_audio L ap p f = (Inr p, f'))
 \<and> (\<forall>e. from_file L p = Inl e \<longrightarrow> normalize_audio L ap p f = (Inr p, f))
 \<and> (\<forall>a e. from_file L p = Inr a \<and> pydub_normalize L a = Inl e \<longrightarrow> normalize_audio L ap p f = (Inr p, f))
 \<and> (\<forall>a n. from_file L p = Inr a \<and> pydub_normalize L a = Inr n \<and> \<not> create_ok L f (normalized_path p)
        \<longrightarrow> normalize_audio L ap p f = (Inr p, f))
 \<and> (\<exists>r f'. reduce_noise L ap p f = (Inr r, f'))
 \<and> (\<forall>e f'. reduce_noise_try L ap p f = (Inl e, f') \<longrightarrow> reduce_noise L ap p f = (Inr p, f'))
 \<and> (\<not> noisereduce_installed L \<longrightarrow> reduce_noise L ap p f = (Inr p, f))
 \<and> (\<forall>e. librosa_load L p = Inl e \<longrightarrow> reduce_noise L ap p f = (Inr p, f))"
proof (intro conjI allI impI)
  show "\<exists>r f'. normalize_audio L ap p f = (Inr r, f')"
    unfolding normalize_audio_def by (rule try_except_total) (simp add: ret_def)
  show "\<exists>r f'. reduce_noise L ap p f = (Inr r, f')"
    unfolding reduce_noise_def by (rule try_except_total) (simp add: ret_def)
next
  fix e f'
  assume "normalize_audio_try L ap p f = (Inl e, f')"
  then show "normalize_audio L ap p f = (Inr p, f')"
    by (simp add: normalize_audio_def try_except_caught ret_def)
next
  fix e f'
  assume "reduce_noise_try L ap p f = (Inl e, f')"
  then show "reduce_noise L ap p f = (Inr p, f')"
    by (simp add: reduce_noise_def try_except_caught ret_def)
next
  fix e
  assume "from_file L p = Inl e"
  then show "normalize_audio L ap p f = (Inr p, f)"
    by (simp add: normalize_audio_def normalize_audio_try_def try_except_def andthen_def
        pure_call_def ret_def Let_def)
next
  fix a e
  assume "from_file L p = Inr a \<and> pydub_normalize L a = Inl e"
  then show "normalize_audio L ap p f = (Inr p, f)"
    by (simp add: normalize_audio_def normalize_audio_try_def try_except_def andthen_def
        pure_call_def ret_def Let_def)
next
  fix a n
  assume "from_file L p = Inr a \<and> pydub_normalize L a = Inr n \<and> \<not> create_ok L f (normalized_path p)"
  then show "normalize_audio L ap p f = (Inr p, f)"
    by (auto simp: normalize_audio_def normalize_audio_try_def try_except_def andthen_def
        pure_call_def ret_def Let_def export_def create_file_def create_ok_def
        split: option.splits)
next
  assume "\<not> noisereduce_installed L"
  then show "reduce_noise L ap p f = (Inr p, f)"
    by (simp add: reduce_noise_def reduce_noise_try_def import_noisereduce_def try_except_def
        andthen_def raise_exc_def ret_def)
next
  fix e
  assume "librosa_load L p = Inl e"
  then show "reduce_noise L ap p f = (Inr p, f)"
    by (simp add: reduce_noise_def reduce_noise_try_def import_noisereduce_def try_except_def
        andthen_def raise_exc_def ret_def pure_call_def)
qed

theorem enhancement_never_raises_witness:
  "reduce_noise demo_libs demo_ap ''out/talk_prepared.wav'' demo_fs
     = (Inr ''out/talk_prepared.wav'', demo_fs)
   \<and> (\<exists>r f'. normalize_audio demo_libs demo_ap ''out/talk_prepared.wav'' demo_fs = (Inr r, f'))"
proof -
  have "\<not> noisereduce_installed demo_libs" by (simp add: demo_libs_def)
  then show ?thesis
    using enhancement_never_raises[of demo_libs demo_ap "''out/talk_prepared.wav''" demo_fs]
    by blast
qed

subsection \<open>process\<close>

lemma andthen_Inr:
  "andthen m k s = (Inr y, s') \<longleftrightarrow> (\<exists>x s1. m s = (Inr x, s1) \<and> k x s1 = (Inr y, s'))"
  by (auto simp: andthen_def split: prod.splits sum.splits)

lemma pure_call_Inr: "pure_call r s = (Inr x, s') \<longleftrightarrow> r = Inr x \<and> s' = s"
  by (auto simp: pure_call_def)

lemma ret_Inr: "ret x s = (Inr y, s') \<longleftrightarrow> y = x \<and> s' = s"
  by (auto simp: ret_def)

lemma raise_exc_Inr: "raise_exc e s = (Inr y, s') \<longleftrightarrow> False"
  by (simp add: raise_exc_def)

lemma try_except_reraise: "try_except m (\<lambda>e. raise_exc e) = m"
  by (auto simp: try_except_def raise_exc_def fun_eq_iff split: prod.splits sum.splits)






lemma analyze_audio_Inr:
  "analyze_audio L p f = (Inr created, f') \<Longrightarrow>
     f' = f \<and> processed_path created = [] \<and> source_path created = p"
  by (auto simp: analyze_audio_def try_except_reraise andthen_Inr pure_call_Inr ret_Inr)







lemma demo_supported: "is_supported_format ''talk.wav''" "\<not> is_video_file ''talk.wav''"
  by code_simp+









section \<open>Properties of main.py\<close>

subsection \<open>process_file\<close>

text \<open>
  Claim C1, as amended. \<open>process_file\<close> never raises: it returns a result. When the body
  of its \<open>try\<close> raises an exception \<open>e\<close>, in whatever stage, the exception is logged and
  the result is the failure with \<open>str(e)\<close> as its error and the input path as its file;
  when the body returns, \<open>process_file\<close> returns the same. The stage is no part of the
  result.
\<close>

theorem process_file_catches:
  "(\<exists>r w'. process_file L dt g p od lang prov w = (Inr r, w'))
   \<and> (\<forall>e w1. process_file_body L dt g p od lang prov w = (Inl e, w1) \<longrightarrow>
          process_file L dt g p od lang prov w
            = (Inr (Failure (exc_str e) p), w1\<lparr>calls := calls w1 @ [LogError e]\<rparr>)
          \<and> \<not> success (Failure (exc_str e) p))
   \<and> (\<forall>r w1. process_file_body L dt g p od lang prov w = (Inr r, w1) \<longrightarrow>
          process_file L dt g p od lang prov w = (Inr r, w1))"
proof (intro conjI allI impI)
  show "\<exists>r w'. process_file L dt g p od lang prov w = (Inr r, w')"
    unfolding process_file_def
    by (rule try_except_total) (simp add: log_and_fail_def andthen_def record_call_def ret_def)
next
  fix e w1
  assume "process_file_body L dt g p od lang prov w = (Inl e, w1)"
  then show "process_file L dt g p od lang prov w
            = (Inr (Failure (exc_str e) p), w1\<lparr>calls := calls w1 @ [LogError e]\<rparr>)"
    by (simp add: process_file_def log_and_fail_def try_except_caught andthen_def record_call_def ret_def)
next
  fix e w1
  show "\<not> success (Failure (exc_str e) p)" by simp
next
  fix r w1
  assume "process_file_body L dt g p od lang prov w = (Inr r, w1)"
  then show "process_file L dt g p od lang prov w = (Inr r, w1)"
    by (simp add: process_file_def try_except_passed)
qed

lemma demo_out_dirs: "set (path_ancestors ''out'') = {''.'', ''out''}"
  by code_simp

lemma run_fail_in_audio:
  "process_file_body demo_libs True fail_in_audio ''talk.wav'' ''out'' None ''auto'' demo_world
     = (Inl boom, demo_world\<lparr>calls := [AudioProcess ''talk.wav'' ''out'']\<rparr>)"
  by (simp add: process_file_body_def transcription_stage_def fail_in_audio_def
      demo_components_def andthen_def in_fs_def mkdir_parents_def record_call_def
      raise_exc_def Let_def demo_out_dirs)
     (simp add: demo_libs_def demo_world_def demo_fs_def demo_out_dirs)

lemma run_fail_in_transcription:
  "process_file_body demo_libs True fail_in_transcription ''talk.wav'' ''out'' None ''auto'' demo_world
     = (Inl boom, demo_world\<lparr>calls := [AudioProcess ''talk.wav'' ''out'',
          SelectProvider (3 / 2) (264644 / (1024 * 1024)),
          Transcribe ''out/talk_prepared.wav'' ''nexara'' None]\<rparr>)"
  by (simp add: process_file_body_def transcription_stage_def fail_in_transcription_def
      demo_components_def andthen_def in_fs_def mkdir_parents_def record_call_def
      raise_exc_def ret_def pure_call_def subscript_def Let_def demo_out_dirs)
     (simp add: demo_libs_def demo_world_def demo_fs_def demo_created_def demo_out_dirs)

theorem process_file_catches_witness:
  "process_file demo_libs True fail_in_transcription ''talk.wav'' ''out'' None ''auto'' demo_world
     = (Inr (Failure ''boom'' ''talk.wav''),
        demo_world\<lparr>calls := [AudioProcess ''talk.wav'' ''out'',
          SelectProvider (3 / 2) (264644 / (1024 * 1024)),
          Transcribe ''out/talk_prepared.wav'' ''nexara'' None,
          LogError boom]\<rparr>)"
  using process_file_catches[of demo_libs True fail_in_transcription "''talk.wav''" "''out''"
      None "''auto''" demo_world] run_fail_in_transcription
  by (simp add: boom_def)

text \<open>
  Claim C1 as stated fails where it says that the result identifies the stage: a
  failure in the audio preparation and a failure in the transcription, with the same
  exception, give the same result. Only the record of calls tells them apart.
\<close>

theorem failure_hides_stage_counterexample:
  "fst (process_file demo_libs True fail_in_audio ''talk.wav'' ''out'' None ''auto'' demo_world)
     = Inr (Failure ''boom'' ''talk.wav'')
   \<and> fst (process_file demo_libs True fail_in_transcription ''talk.wav'' ''out'' None ''auto'' demo_world)
     = Inr (Failure ''boom'' ''talk.wav'')
   \<and> calls (snd (process_file demo_libs True fail_in_audio ''talk.wav'' ''out'' None ''auto'' demo_world))
     = [AudioProcess ''talk.wav'' ''out'', LogError boom]
   \<and> calls (snd (process_file demo_libs True fail_in_transcription ''talk.wav'' ''out'' None ''auto'' demo_world))
     = [AudioProcess ''talk.wav'' ''out'',
        SelectProvider (3 / 2) (264644 / (1024 * 1024)),
        Transcribe ''out/talk_prepared.wav'' ''nexara'' None,
        LogError boom]"
  by (simp add: process_file_def log_and_fail_def try_except_def run_fail_in_audio
      run_fail_in_transcription andthen_def record_call_def ret_def)
     (simp add: boom_def)

subsection \<open>What the pipeline adds to the record of calls\<close>

lemma appends_ret: "appends A (ret x)"
  by (simp add: appends_def ret_def)

lemma appends_raise_exc: "appends A (raise_exc e)"
  by (simp add: appends_def raise_exc_def)

lemma appends_pure_call: "appends A (pure_call r)"
  by (simp add: appends_def pure_call_def)

lemma appends_in_fs: "appends A (in_fs m)"
  by (simp add: appends_def in_fs_def split: prod.splits)

lemma appends_record_call: "c \<in> A \<Longrightarrow> appends A (record_call c)"
  by (simp add: appends_def record_call_def)

lemma appends_andthen:
  assumes "appends A m" and "\<And>x. appends A (k x)"
  shows "appends A (andthen m k)"
  unfolding appends_def
proof
  fix w
  obtain r w1 where m: "m w = (r, w1)" by (cases "m w")
  from assms(1) obtain n1 where n1: "calls w1 = calls w @ n1" "set n1 \<subseteq> A"
    unfolding appends_def using m by (metis snd_conv)
  show "\<exists>new. calls (snd (andthen m k w)) = calls w @ new \<and> set new \<subseteq> A"
  proof (cases r)
    case (Inl e)
    then show ?thesis using m n1 by (simp add: andthen_def)
  next
    case (Inr x)
    from assms(2)[of x] obtain n2 where "calls (snd (k x w1)) = calls w1 @ n2" "set n2 \<subseteq> A"
      unfolding appends_def by blast
    then have "calls (snd (k x w1)) = calls w @ (n1 @ n2) \<and> set (n1 @ n2) \<subseteq> A"
      using n1 by simp
    then show ?thesis using m Inr unfolding andthen_def by (simp only: prod.case sum.case) blast
  qed
qed

lemma appends_try_except:
  assumes "appends A m" and "\<And>e. appends A (h e)"
  shows "appends A (try_except m h)"
  unfolding appends_def
proof
  fix w
  obtain r w1 where m: "m w = (r, w1)" by (cases "m w")
  from assms(1) obtain n1 where n1: "calls w1 = calls w @ n1" "set n1 \<subseteq> A"
    unfolding appends_def using m by (metis snd_conv)
  show "\<exists>new. calls (snd (try_except m h w)) = calls w @ new \<and> set new \<subseteq> A"
  proof (cases r)
    case (Inr x)
    then show ?thesis using m n1 by (simp add: try_except_def)
  next
    case (Inl e)
    from assms(2)[of e] obtain n2 where "calls (snd (h e w1)) = calls w1 @ n2" "set n2 \<subseteq> A"
      unfolding appends_def by blast
    then have "calls (snd (h e w1)) = calls w @ (n1 @ n2) \<and> set (n1 @ n2) \<subseteq> A"
      using n1 by simp
    then show ?thesis using m Inl unfolding try_except_def by (simp only: prod.case sum.case) blast
  qed
qed

lemma appends_if: "appends A a \<Longrightarrow> appends A b \<Longrightarrow> appends A (if c then a else b)"
  by simp

lemma appends_case_prod: "(\<And>a b. appends A (k a b)) \<Longrightarrow> appends A (case x of (a, b) \<Rightarrow> k a b)"
  by (cases x) simp

lemma appends_mono: "appends A m \<Longrightarrow> A \<subseteq> B \<Longrightarrow> appends B m"
  unfolding appends_def by (meson subset_trans)

lemma appends_filter:
  assumes "appends A m" and "\<And>c. c \<in> A \<Longrightarrow> \<not> P c"
  shows "filter P (calls (snd (m w))) = filter P (calls w)"
proof -
  from assms(1) obtain new where "calls (snd (m w)) = calls w @ new" "set new \<subseteq> A"
    unfolding appends_def by blast
  moreover have "filter P new = []"
    using assms(2) calculation(2) by (auto simp: filter_empty_conv)
  ultimately show ?thesis by simp
qed

lemmas appends_intros = appends_andthen appends_try_except appends_if appends_case_prod
  appends_ret appends_raise_exc appends_pure_call appends_in_fs appends_record_call

lemma appends_transcription_stage:
  "appends {c. is_plain c} (transcription_stage L g p od lang prov)"
  unfolding transcription_stage_def Let_def
  by (intro appends_intros) simp_all

lemma appends_quality_stage:
  "appends {QualityCheck (segments pd), AutoCorrect (segments pd)} (quality_stage g pd)"
  unfolding quality_stage_def Let_def
  by (intro appends_intros) simp_all

lemma appends_write_formats:
  "appends (range (FormatSegments segs)) (write_formats L C p od segs names outs)"
proof (induction names arbitrary: outs)
  case Nil
  show ?case by (simp add: appends_ret)
next
  case (Cons n names)
  show ?case
    unfolding write_formats.simps Let_def
    by (intro appends_intros Cons.IH) simp
qed

lemma appends_generate_report:
  "appends A (generate_report L dt rp info tr pd qr outs)"
  unfolding generate_report_def Let_def
  by (intro appends_intros)

lemma appends_output_stage:
  "appends (range (FormatSegments (segments pd)))
     (output_stage L dt g p od info chosen tr pd qr)"
  unfolding output_stage_def Let_def
  by (intro appends_intros appends_write_formats appends_generate_report)

lemma is_plain_not_OpenConfig: "is_plain c \<Longrightarrow> \<not> is_OpenConfig c"
  by (cases c) simp_all

lemma appends_process_file:
  "appends {c. \<not> is_OpenConfig c} (process_file L dt g p od lang prov)"
  unfolding process_file_def process_file_body_def log_and_fail_def
  by (intro appends_intros
        appends_mono[OF appends_transcription_stage]
        appends_mono[OF appends_quality_stage]
        appends_mono[OF appends_output_stage]) (auto dest: is_plain_not_OpenConfig)

lemma appends_process_matches:
  "appends {c. \<not> is_OpenConfig c} (process_matches L dt g od paths results)"
proof (induction paths arbitrary: results)
  case Nil
  show ?case by (simp add: appends_ret)
next
  case (Cons q paths)
  show ?case
    unfolding process_matches.simps
    by (intro appends_intros appends_process_file Cons.IH)
qed

lemma appends_process_patterns:
  "appends {c. \<not> is_OpenConfig c} (process_patterns L dt g d od patterns results)"
proof (induction patterns arbitrary: results)
  case Nil
  show ?case by (simp add: appends_ret)
next
  case (Cons q patterns)
  show ?case
    unfolding process_patterns.simps
    by (intro appends_intros appends_process_matches Cons.IH)
qed

lemma appends_batch_process:
  "appends {c. \<not> is_OpenConfig c} (batch_process L dt g d od pats)"
  unfolding batch_process_def generate_batch_report_def Let_def
  by (intro appends_intros appends_process_patterns)

subsection \<open>load_config\<close>

lemma load_config_result:
  "load_config L p w =
     (Inr (case yaml_load L p of Inl e \<Rightarrow> get_default_config | Inr cfg \<Rightarrow> cfg),
      w\<lparr>calls := calls w @ [OpenConfig p]\<rparr>)"
  by (simp add: load_config_def try_except_def andthen_def record_call_def pure_call_def
      ret_def split: sum.splits)

lemma init_calls:
  "calls (snd (AutoSubtitleGenerator_init L S p w)) = calls w @ [OpenConfig p]"
  by (simp add: AutoSubtitleGenerator_init_def andthen_def load_config_result
      setup_components_def in_fs_def ret_def split: prod.splits sum.splits)

lemma main_opens_once:
  "filter is_OpenConfig (calls (snd (main L S a w)))
     = filter is_OpenConfig (calls w)
       @ (if os_path_exists L (arg_input a) then [OpenConfig (arg_config a)] else [])"
proof (cases "os_path_exists L (arg_input a)")
  case False
  then show ?thesis by (simp add: main_def)
next
  case True
  obtain r w1 where i: "AutoSubtitleGenerator_init L S (arg_config a) w = (r, w1)"
    by (cases "AutoSubtitleGenerator_init L S (arg_config a) w")
  have w1: "calls w1 = calls w @ [OpenConfig (arg_config a)]"
    using init_calls[of L S "arg_config a" w] i by simp
  show ?thesis
  proof (cases r)
    case (Inl e)
    then show ?thesis using True i w1 by (simp add: main_def)
  next
    case (Inr g)
    have b: "filter is_OpenConfig (calls (snd (batch_process L True g (arg_input a) (arg_output a) None w1)))
               = filter is_OpenConfig (calls w1)"
      by (rule appends_filter[OF appends_batch_process]) simp
    have p: "filter is_OpenConfig (calls (snd (process_file L True g (arg_input a) (arg_output a)
                 (arg_language a) (arg_provider a) w1)))
               = filter is_OpenConfig (calls w1)"
      by (rule appends_filter[OF appends_process_file]) simp
    show ?thesis
    proof (cases "arg_batch a \<and> os_path_isdir L (arg_input a)")
      case True
      with b show ?thesis
        using \<open>os_path_exists L (arg_input a)\<close> i Inr w1
        by (auto simp: main_def split: prod.splits sum.splits)
    next
      case False
      with p show ?thesis
        using \<open>os_path_exists L (arg_input a)\<close> i Inr w1
        by (auto simp: main_def split: prod.splits sum.splits)
    qed
  qed
qed

text \<open>
  Claim C6. \<open>load_config\<close> never raises. When loading the file fails, it installs the
  built-in default configuration, and \<open>__init__\<close> goes on to set up the components with
  that default: the generator it returns holds the default configuration. In a run of
  \<open>main\<close> the configuration file is opened once, at start-up, when the input path
  exists, and not at all otherwise; nothing after that opens it again.
\<close>

theorem load_config_falls_back:
  "(\<exists>cfg. load_config L config_path w = (Inr cfg, w\<lparr>calls := calls w @ [OpenConfig config_path]\<rparr>))
 \<and> (\<forall>e. yaml_load L config_path = Inl e \<longrightarrow>
        load_config L config_path w
          = (Inr get_default_config, w\<lparr>calls := calls w @ [OpenConfig config_path]\<rparr>))
 \<and> (\<forall>e C f. yaml_load L config_path = Inl e \<and> S get_default_config (fsys w) = (Inr C, f) \<longrightarrow>
        AutoSubtitleGenerator_init L S config_path w
          = (Inr \<lparr>gen_config = get_default_config, gen_components = C\<rparr>,
             w\<lparr>fsys := f, calls := calls w @ [OpenConfig config_path]\<rparr>))
 \<and> filter is_OpenConfig (calls (snd (main L S a w)))
     = filter is_OpenConfig (calls w)
       @ (if os_path_exists L (arg_input a) then [OpenConfig (arg_config a)] else [])"
proof (intro conjI allI impI)
  show "\<exists>cfg. load_config L config_path w = (Inr cfg, w\<lparr>calls := calls w @ [OpenConfig config_path]\<rparr>)"
    by (simp add: load_config_result)
next
  fix e
  assume "yaml_load L config_path = Inl e"
  then show "load_config L config_path w
          = (Inr get_default_config, w\<lparr>calls := calls w @ [OpenConfig config_path]\<rparr>)"
    by (simp add: load_config_result)
next
  fix e C f
  assume "yaml_load L config_path = Inl e \<and> S get_default_config (fsys w) = (Inr C, f)"
  then show "AutoSubtitleGenerator_init L S config_path w
          = (Inr \<lparr>gen_config = get_default_config, gen_components = C\<rparr>,
             w\<lparr>fsys := f, calls := calls w @ [OpenConfig config_path]\<rparr>)"
    by (simp add: AutoSubtitleGenerator_init_def andthen_def load_config_result
        setup_components_def in_fs_def ret_def)
next
  show "filter is_OpenConfig (calls (snd (main L S a w)))
     = filter is_OpenConfig (calls w)
       @ (if os_path_exists L (arg_input a) then [OpenConfig (arg_config a)] else [])"
    by (rule main_opens_once)
qed

lemma demo_init:
  "AutoSubtitleGenerator_init demo_libs demo_setup ''config.yaml'' demo_world
     = (Inr \<lparr>gen_config = get_default_config, gen_components = demo_components\<rparr>,
        demo_world\<lparr>calls := [OpenConfig ''config.yaml'']\<rparr>)"
proof -
  have 1: "yaml_load demo_libs ''config.yaml'' = Inl (FileNotFoundError ''config.yaml'')"
    by (simp add: demo_libs_def)
  have 2: "demo_setup get_default_config (fsys demo_world) = (Inr demo_components, demo_fs)"
    by (simp add: demo_setup_def ret_def demo_world_def)
  show ?thesis
    by (simp add: AutoSubtitleGenerator_init_def andthen_def load_config_result
        setup_components_def in_fs_def ret_def 1 2)
       (simp add: demo_world_def)
qed

theorem load_config_falls_back_witness:
  "load_config demo_libs ''config.yaml'' demo_world
     = (Inr get_default_config, demo_world\<lparr>calls := [OpenConfig ''config.yaml'']\<rparr>)
   \<and> AutoSubtitleGenerator_init demo_libs demo_setup ''config.yaml'' demo_world
     = (Inr \<lparr>gen_config = get_default_config, gen_components = demo_components\<rparr>,
        demo_world\<lparr>calls := [OpenConfig ''config.yaml'']\<rparr>)
   \<and> filter is_OpenConfig (calls (snd (main demo_libs demo_setup demo_args demo_world)))
     = [OpenConfig ''config.yaml'']"
proof -
  have 1: "yaml_load demo_libs ''config.yaml'' = Inl (FileNotFoundError ''config.yaml'')"
    by (simp add: demo_libs_def)
  have 2: "demo_setup get_default_config (fsys demo_world) = (Inr demo_components, demo_fs)"
    by (simp add: demo_setup_def ret_def demo_world_def)
  have 3: "os_path_exists demo_libs (arg_input demo_args)"
    by (simp add: demo_libs_def)
  have 4: "arg_config demo_args = ''config.yaml''" "calls demo_world = []"
    "demo_world\<lparr>fsys := demo_fs, calls := [OpenConfig ''config.yaml'']\<rparr>
       = demo_world\<lparr>calls := [OpenConfig ''config.yaml'']\<rparr>"
    by (simp_all add: demo_args_def demo_world_def)
  show ?thesis
    using load_config_falls_back[of demo_libs "''config.yaml''" demo_world demo_setup demo_args]
      1 2 3 by (simp add: 4)
qed

subsection \<open>main\<close>

lemma process_file_returns:
  "\<exists>r w'. process_file L dt g p od lang prov w = (Inr r, w')"
  unfolding process_file_def
  by (rule try_except_total) (simp add: log_and_fail_def andthen_def record_call_def ret_def)

text \<open>
  Claim C5, as amended. \<open>main\<close> exits with 1 when the input path does not exist and when
  the initialisation of the generator raises. For a single file it exits with 0 when
  the file succeeds and with 1 when it fails (\<open>process_file\<close> always returns a result).
  In batch mode it exits with 0 whenever \<open>batch_process\<close> returns, whatever the results.
\<close>

theorem main_exit_codes:
  "(\<not> os_path_exists L (arg_input a) \<longrightarrow> exit_code (fst (main L S a w)) = 1)
 \<and> (\<forall>e w1. os_path_exists L (arg_input a)
        \<and> AutoSubtitleGenerator_init L S (arg_config a) w = (Inl e, w1)
      \<longrightarrow> exit_code (fst (main L S a w)) = 1)
 \<and> (\<forall>g w1. os_path_exists L (arg_input a)
        \<and> AutoSubtitleGenerator_init L S (arg_config a) w = (Inr g, w1)
        \<and> \<not> (arg_batch a \<and> os_path_isdir L (arg_input a))
      \<longrightarrow> (\<exists>r w2. process_file L True g (arg_input a) (arg_output a)
                      (arg_language a) (arg_provider a) w1 = (Inr r, w2)
                 \<and> exit_code (fst (main L S a w)) = (if success r then 0 else 1)))
 \<and> (\<forall>g w1 results w2. os_path_exists L (arg_input a)
        \<and> AutoSubtitleGenerator_init L S (arg_config a) w = (Inr g, w1)
        \<and> arg_batch a \<and> os_path_isdir L (arg_input a)
        \<and> batch_process L True g (arg_input a) (arg_output a) None w1 = (Inr results, w2)
      \<longrightarrow> exit_code (fst (main L S a w)) = 0)"
proof (intro conjI allI impI)
  assume "\<not> os_path_exists L (arg_input a)"
  then show "exit_code (fst (main L S a w)) = 1" by (simp add: main_def)
next
  fix e w1
  assume "os_path_exists L (arg_input a)
        \<and> AutoSubtitleGenerator_init L S (arg_config a) w = (Inl e, w1)"
  then show "exit_code (fst (main L S a w)) = 1" by (simp add: main_def)
next
  fix g w1
  assume h: "os_path_exists L (arg_input a)
        \<and> AutoSubtitleGenerator_init L S (arg_config a) w = (Inr g, w1)
        \<and> \<not> (arg_batch a \<and> os_path_isdir L (arg_input a))"
  obtain r w2 where p: "process_file L True g (arg_input a) (arg_output a)
                      (arg_language a) (arg_provider a) w1 = (Inr r, w2)"
    using process_file_returns by blast
  have "exit_code (fst (main L S a w)) = (if success r then 0 else 1)"
    using h p by (auto simp: main_def)
  with p show "\<exists>r w2. process_file L True g (arg_input a) (arg_output a)
                      (arg_language a) (arg_provider a) w1 = (Inr r, w2)
                 \<and> exit_code (fst (main L S a w)) = (if success r then 0 else 1)"
    by blast
next
  fix g w1 results w2
  assume "os_path_exists L (arg_input a)
        \<and> AutoSubtitleGenerator_init L S (arg_config a) w = (Inr g, w1)
        \<and> arg_batch a \<and> os_path_isdir L (arg_input a)
        \<and> batch_process L True g (arg_input a) (arg_output a) None w1 = (Inr results, w2)"
  then show "exit_code (fst (main L S a w)) = 0" by (simp add: main_def)
qed

lemma default_config_no_formats:
  "section_of ''output_formats'' (cfg_output_formats get_default_config)
     = Inl (KeyError ''output_formats'')"
  by (simp add: section_of_def get_default_config_def)

lemma demo_stage1:
  "transcription_stage demo_libs \<lparr>gen_config = cfg, gen_components = demo_components\<rparr>
       ''talk.wav'' ''out'' None ''auto'' (demo_world\<lparr>calls := cs\<rparr>)
     = (Inr (InfoDict (demo_created\<lparr>processed_path := ''out/talk_prepared.wav''\<rparr>), ''nexara'',
             \<lparr>tr_provider = Some ''nexara'', tr_language = Some ''en'', raw_segments = demo_segments\<rparr>,
             \<lparr>segments = demo_segments, words = Some [''a'']\<rparr>),
        demo_world\<lparr>calls := cs @ [AudioProcess ''talk.wav'' ''out'',
          SelectProvider (3 / 2) (264644 / (1024 * 1024)),
          Transcribe ''out/talk_prepared.wav'' ''nexara'' None, PostProcess]\<rparr>)"
  by (simp add: transcription_stage_def demo_components_def andthen_def in_fs_def
      mkdir_parents_def record_call_def ret_def pure_call_def subscript_def Let_def)
     (simp add: demo_libs_def demo_world_def demo_fs_def demo_created_def demo_out_dirs)

lemma demo_stage2:
  "quality_stage \<lparr>gen_config = cfg, gen_components = demo_components\<rparr>
       \<lparr>segments = demo_segments, words = Some [''a'']\<rparr> w
     = (Inr (demo_report, \<lparr>segments = demo_segments, words = Some [''a'']\<rparr>),
        w\<lparr>calls := calls w @ [QualityCheck demo_segments]\<rparr>)"
  by (simp add: quality_stage_def demo_components_def andthen_def record_call_def ret_def
      pure_call_def Let_def demo_report_def)

lemma demo_single_run:
  "process_file demo_libs True \<lparr>gen_config = get_default_config, gen_components = demo_components\<rparr>
       ''talk.wav'' ''out'' None ''auto'' (demo_world\<lparr>calls := [OpenConfig ''config.yaml'']\<rparr>)
     = (Inr (Failure (py_repr ''output_formats'') ''talk.wav''),
        demo_world\<lparr>calls := [OpenConfig ''config.yaml'', AudioProcess ''talk.wav'' ''out'',
          SelectProvider (3 / 2) (264644 / (1024 * 1024)),
          Transcribe ''out/talk_prepared.wav'' ''nexara'' None, PostProcess,
          QualityCheck demo_segments, LogError (KeyError ''output_formats'')]\<rparr>)"
  by (simp add: process_file_def log_and_fail_def process_file_body_def try_except_def
      andthen_def demo_stage1 demo_stage2 output_stage_def default_config_no_formats pure_call_def record_call_def
      ret_def KeyError_def)

theorem main_exit_codes_witness:
  "exit_code (fst (main demo_libs demo_setup demo_args demo_world)) = 1"
proof -
  have 1: "os_path_exists demo_libs (arg_input demo_args)"
    "\<not> (arg_batch demo_args \<and> os_path_isdir demo_libs (arg_input demo_args))"
    by (simp_all add: demo_libs_def demo_args_def)
  have 2: "AutoSubtitleGenerator_init demo_libs demo_setup (arg_config demo_args) demo_world
     = (Inr \<lparr>gen_config = get_default_config, gen_components = demo_components\<rparr>,
        demo_world\<lparr>calls := [OpenConfig ''config.yaml'']\<rparr>)"
    using demo_init by (simp add: demo_args_def)
  have 3: "process_file demo_libs True \<lparr>gen_config = get_default_config, gen_components = demo_components\<rparr>
       (arg_input demo_args) (arg_output demo_args) (arg_language demo_args) (arg_provider demo_args)
       (demo_world\<lparr>calls := [OpenConfig ''config.yaml'']\<rparr>)
     = (Inr (Failure (py_repr ''output_formats'') ''talk.wav''),
        demo_world\<lparr>calls := [OpenConfig ''config.yaml'', AudioProcess ''talk.wav'' ''out'',
          SelectProvider (3 / 2) (264644 / (1024 * 1024)),
          Transcribe ''out/talk_prepared.wav'' ''nexara'' None, PostProcess,
          QualityCheck demo_segments, LogError (KeyError ''output_formats'')]\<rparr>)"
    using demo_single_run by (simp add: demo_args_def)
  show ?thesis
    using main_exit_codes[of demo_libs demo_args demo_setup demo_world] 1 2 3 by auto
qed

lemma demo_stage1_any:
  assumes "mkdir_err L od = None"
  shows "transcription_stage L \<lparr>gen_config = cfg, gen_components = demo_components\<rparr>
       p od None ''auto'' w
     = (Inr (InfoDict (demo_created\<lparr>processed_path := ''out/talk_prepared.wav''\<rparr>), ''nexara'',
             \<lparr>tr_provider = Some ''nexara'', tr_language = Some ''en'', raw_segments = demo_segments\<rparr>,
             \<lparr>segments = demo_segments, words = Some [''a'']\<rparr>),
        w\<lparr>fsys := (fsys w)\<lparr>dirs := dirs (fsys w) \<union> set (path_ancestors od)\<rparr>,
          calls := calls w @ [AudioProcess p od,
          SelectProvider (3 / 2) (264644 / (1024 * 1024)),
          Transcribe ''out/talk_prepared.wav'' ''nexara'' None, PostProcess]\<rparr>)"
  using assms
  by (simp add: transcription_stage_def demo_components_def andthen_def in_fs_def
      mkdir_parents_def record_call_def ret_def pure_call_def subscript_def Let_def
      demo_created_def)

lemma demo_run_default:
  assumes "mkdir_err L od = None"
  shows "process_file L True \<lparr>gen_config = get_default_config, gen_components = demo_components\<rparr>
       p od None ''auto'' w
     = (Inr (Failure (py_repr ''output_formats'') p),
        w\<lparr>fsys := (fsys w)\<lparr>dirs := dirs (fsys w) \<union> set (path_ancestors od)\<rparr>,
          calls := calls w @ [AudioProcess p od,
          SelectProvider (3 / 2) (264644 / (1024 * 1024)),
          Transcribe ''out/talk_prepared.wav'' ''nexara'' None, PostProcess,
          QualityCheck demo_segments, LogError (KeyError ''output_formats'')]\<rparr>)"
  by (simp add: process_file_def log_and_fail_def process_file_body_def try_except_def
      andthen_def demo_stage1_any[OF assms] demo_stage2 output_stage_def default_config_no_formats
      pure_call_def record_call_def ret_def KeyError_def)

lemma batch_paths:
  "path_join ''out'' (path_stem ''in/a.mp3'') = ''out/a''"
  "set (path_ancestors ''out/a'') = {''.'', ''out'', ''out/a''}"
  "batch_report_path ''out'' = ''out/batch_report.txt''"
  "path_parent ''out/batch_report.txt'' = ''out''"
  "batch_report_path ''output_batch'' = ''output_batch/batch_report.txt''"
  "path_parent ''output_batch/batch_report.txt'' = ''output_batch''"
  by code_simp+

lemma demo_batch_mkdir: "mkdir_err demo_batch_libs od = None"
  by (simp add: demo_batch_libs_def demo_libs_def)

lemma demo_batch_run:
  "batch_process demo_batch_libs True
       \<lparr>gen_config = get_default_config, gen_components = demo_components\<rparr>
       ''in'' ''out'' None (demo_world\<lparr>calls := [OpenConfig ''config.yaml'']\<rparr>)
     = (Inr [Failure (py_repr ''output_formats'') ''in/a.mp3''],
        \<lparr>fsys = \<lparr>dirs = {''.'', ''out'', ''out/a''},
                 files = [(''out/batch_report.txt'',
                   BatchReport [BRule, BTitle, BRule, TotalFiles 1, Succeeded 0, WithErrors 1,
                     BStatisticsHeader, FailedHeader,
                     FailureLine ''in/a.mp3'' (py_repr ''output_formats'')])]\<rparr>,
         calls = [OpenConfig ''config.yaml'', AudioProcess ''in/a.mp3'' ''out/a'',
           SelectProvider (3 / 2) (264644 / (1024 * 1024)),
           Transcribe ''out/talk_prepared.wav'' ''nexara'' None, PostProcess,
           QualityCheck demo_segments, LogError (KeyError ''output_formats'')]\<rparr>)"
proof -
  have g: "glob_fn demo_batch_libs ''in'' ''*.mp3'' = [''in/a.mp3'']"
    "glob_fn demo_batch_libs ''in'' ''*.wav'' = []"
    "glob_fn demo_batch_libs ''in'' ''*.mp4'' = []"
    "glob_fn demo_batch_libs ''in'' ''*.m4a'' = []"
    "is_file_fn demo_batch_libs ''in/a.mp3''"
    "write_err demo_batch_libs ''out/batch_report.txt'' = None"
    by (simp_all add: demo_batch_libs_def demo_libs_def)
  show ?thesis
    by (simp add: batch_process_def default_patterns_def andthen_def g
        demo_run_default[OF demo_batch_mkdir] batch_paths ret_def
        generate_batch_report_def batch_report_lines_def pure_call_def in_fs_def
        create_file_def Let_def)
       (simp add: demo_world_def demo_fs_def batch_paths insert_commute)
qed

text \<open>
  Claim C5 as stated fails twice. A single file that fails makes \<open>main\<close> exit with 1
  although the input path exists and the initialisation succeeded; and a batch run in
  which no file succeeds exits with 0.
\<close>

theorem exit_one_on_failed_file_counterexample:
  "exit_code (fst (main demo_libs demo_setup demo_args demo_world)) = 1
   \<and> os_path_exists demo_libs (arg_input demo_args)
   \<and> fst (AutoSubtitleGenerator_init demo_libs demo_setup (arg_config demo_args) demo_world)
       = Inr \<lparr>gen_config = get_default_config, gen_components = demo_components\<rparr>
   \<and> exit_code (fst (main demo_batch_libs demo_setup demo_batch_args demo_world)) = 0
   \<and> fst (batch_process demo_batch_libs True
             \<lparr>gen_config = get_default_config, gen_components = demo_components\<rparr>
             ''in'' ''out'' None (demo_world\<lparr>calls := [OpenConfig ''config.yaml'']\<rparr>))
       = Inr [Failure (py_repr ''output_formats'') ''in/a.mp3'']"
proof -
  have 1: "os_path_exists demo_libs (arg_input demo_args)"
    "\<not> (arg_batch demo_args \<and> os_path_isdir demo_libs (arg_input demo_args))"
    by (simp_all add: demo_libs_def demo_args_def)
  have 2: "AutoSubtitleGenerator_init demo_libs demo_setup (arg_config demo_args) demo_world
     = (Inr \<lparr>gen_config = get_default_config, gen_components = demo_components\<rparr>,
        demo_world\<lparr>calls := [OpenConfig ''config.yaml'']\<rparr>)"
    using demo_init by (simp add: demo_args_def)
  have single: "fst (main demo_libs demo_setup demo_args demo_world) = SysExit 1"
    using 1 2 demo_single_run by (simp add: main_def demo_args_def)
  have 3: "os_path_exists demo_batch_libs (arg_input demo_batch_args)"
    "arg_batch demo_batch_args \<and> os_path_isdir demo_batch_libs (arg_input demo_batch_args)"
    by (simp_all add: demo_batch_libs_def demo_libs_def demo_batch_args_def)
  have y: "yaml_load demo_batch_libs ''config.yaml'' = Inl (FileNotFoundError ''config.yaml'')"
    by (simp add: demo_batch_libs_def demo_libs_def)
  have 4: "AutoSubtitleGenerator_init demo_batch_libs demo_setup (arg_config demo_batch_args) demo_world
     = (Inr \<lparr>gen_config = get_default_config, gen_components = demo_components\<rparr>,
        demo_world\<lparr>calls := [OpenConfig ''config.yaml'']\<rparr>)"
    by (simp add: AutoSubtitleGenerator_init_def andthen_def load_config_result
        setup_components_def in_fs_def ret_def y demo_setup_def demo_batch_args_def demo_args_def)
       (simp add: demo_world_def)
  have batch: "fst (main demo_batch_libs demo_setup demo_batch_args demo_world) = Returned"
    using 3 4 demo_batch_run by (simp add: main_def demo_batch_args_def demo_args_def)
  show ?thesis
    using single batch 1 2 demo_batch_run by simp
qed

subsection \<open>batch_process\<close>

text \<open>
  Claim C2, at an input where the code does not do what the claim says: a batch over a
  directory in which no file matches, with an output directory that does not exist yet.
  Nothing has created the output directory when \<open>generate_batch_report\<close> writes the
  report (only \<open>process_file\<close> creates directories), so \<open>batch_process\<close> raises
  \<open>FileNotFoundError\<close> and no report is written.
\<close>

theorem batch_report_missing_on_empty_batch:
  "batch_process demo_libs True
       \<lparr>gen_config = demo_config, gen_components = demo_components\<rparr>
       ''in'' ''output_batch'' None bare_world
     = (Inl (FileNotFoundError ''output_batch/batch_report.txt''), bare_world)"
proof -
  have g: "\<And>pattern. glob_fn demo_libs ''in'' pattern = []"
    by (simp add: demo_libs_def)
  show ?thesis
    by (simp add: batch_process_def default_patterns_def andthen_def g ret_def
        generate_batch_report_def batch_report_lines_def pure_call_def in_fs_def
        create_file_def Let_def batch_paths)
       (simp add: bare_world_def batch_paths)
qed

subsection \<open>The quality check and the correction\<close>

lemma quality_stage_run:
  "quality_stage g pd w =
     (case quality_check (gen_components g) (segments pd) of
        Inl e \<Rightarrow> (Inl e, w\<lparr>calls := calls w @ [QualityCheck (segments pd)]\<rparr>)
      | Inr qr \<Rightarrow>
          if 0 < total_issues qr \<and> errors qr \<noteq> [] then
            (case auto_correct (gen_components g) (segments pd) of
               Inl e \<Rightarrow> (Inl e, w\<lparr>calls := calls w @ [QualityCheck (segments pd),
                                                       AutoCorrect (segments pd)]\<rparr>)
             | Inr segs \<Rightarrow> (Inr (qr, pd\<lparr>segments := segs\<rparr>),
                            w\<lparr>calls := calls w @ [QualityCheck (segments pd),
                                                   AutoCorrect (segments pd)]\<rparr>))
          else (Inr (qr, pd), w\<lparr>calls := calls w @ [QualityCheck (segments pd)]\<rparr>))"
  by (simp add: quality_stage_def Let_def andthen_def record_call_def pure_call_def ret_def
      split: sum.splits)

lemma quality_stage_check_fails:
  "quality_check (gen_components g) (segments pd) = Inl e \<Longrightarrow>
   quality_stage g pd w = (Inl e, w\<lparr>calls := calls w @ [QualityCheck (segments pd)]\<rparr>)"
  by (simp add: quality_stage_run)

lemma quality_stage_no_correction:
  "quality_check (gen_components g) (segments pd) = Inr qr \<Longrightarrow>
   \<not> (0 < total_issues qr \<and> errors qr \<noteq> []) \<Longrightarrow>
   quality_stage g pd w = (Inr (qr, pd), w\<lparr>calls := calls w @ [QualityCheck (segments pd)]\<rparr>)"
  by (auto simp: quality_stage_run)

lemma quality_stage_correction_fails:
  "quality_check (gen_components g) (segments pd) = Inr qr \<Longrightarrow>
   0 < total_issues qr \<and> errors qr \<noteq> [] \<Longrightarrow>
   auto_correct (gen_components g) (segments pd) = Inl e \<Longrightarrow>
   quality_stage g pd w
     = (Inl e, w\<lparr>calls := calls w @ [QualityCheck (segments pd), AutoCorrect (segments pd)]\<rparr>)"
  by (simp add: quality_stage_run)

lemma quality_stage_corrected:
  "quality_check (gen_components g) (segments pd) = Inr qr \<Longrightarrow>
   0 < total_issues qr \<and> errors qr \<noteq> [] \<Longrightarrow>
   auto_correct (gen_components g) (segments pd) = Inr segs \<Longrightarrow>
   quality_stage g pd w
     = (Inr (qr, pd\<lparr>segments := segs\<rparr>),
        w\<lparr>calls := calls w @ [QualityCheck (segments pd), AutoCorrect (segments pd)]\<rparr>)"
  by (simp add: quality_stage_run)

lemma log_and_fail_calls: "calls (snd (log_and_fail p e w)) = calls w @ [LogError e]"
  by (simp add: log_and_fail_def andthen_def record_call_def ret_def)

lemma process_file_unfold:
  "process_file L dt g p od lang prov w =
     (case transcription_stage L g p od lang prov w of
        (Inl e, w1) \<Rightarrow> log_and_fail p e w1
      | (Inr (info, chosen, tr, pd), w1) \<Rightarrow>
          (case quality_stage g pd w1 of
             (Inl e, w2) \<Rightarrow> log_and_fail p e w2
           | (Inr (qr, pd'), w2) \<Rightarrow>
               try_except (output_stage L dt g p od info chosen tr pd' qr) (log_and_fail p) w2))"
  by (simp add: process_file_def process_file_body_def try_except_def andthen_def
      split: prod.splits sum.splits)

lemma output_stage_calls:
  "\<exists>new. calls (snd (try_except (output_stage L dt g p od info chosen tr pd qr) (log_and_fail p) w))
            = calls w @ new
         \<and> set new \<subseteq> range (FormatSegments (segments pd)) \<union> {c. is_plain c}"
proof -
  have "appends (range (FormatSegments (segments pd)) \<union> {c. is_plain c})
          (try_except (output_stage L dt g p od info chosen tr pd qr) (log_and_fail p))"
    unfolding log_and_fail_def
    by (intro appends_try_except appends_andthen appends_record_call appends_ret
          appends_mono[OF appends_output_stage]) auto
  then show ?thesis unfolding appends_def by blast
qed

lemma checks_in_append: "checks_in (xs @ ys) = checks_in xs @ checks_in ys"
  by (induction xs rule: checks_in.induct) simp_all

lemma corrections_in_append: "corrections_in (xs @ ys) = corrections_in xs @ corrections_in ys"
  by (induction xs rule: corrections_in.induct) simp_all

lemma formatted_in_append: "formatted_in (xs @ ys) = formatted_in xs @ formatted_in ys"
  by (induction xs rule: formatted_in.induct) simp_all

lemma plain_calls_read:
  "set cs \<subseteq> {c. is_plain c} \<Longrightarrow>
   checks_in cs = [] \<and> corrections_in cs = [] \<and> formatted_in cs = []"
proof (induction cs)
  case Nil
  show ?case by simp
next
  case (Cons c cs)
  then show ?case by (cases c) simp_all
qed

lemma format_calls_read:
  "set cs \<subseteq> range (FormatSegments s) \<union> {c. is_plain c} \<Longrightarrow>
   checks_in cs = [] \<and> corrections_in cs = [] \<and> set (formatted_in cs) \<subseteq> {s}"
proof (induction cs)
  case Nil
  show ?case by simp
next
  case (Cons c cs)
  then show ?case by (cases c) auto
qed

lemma try_andthen_unfold:
  "try_except (andthen m k) h w =
     (case m w of (Inl e, w1) \<Rightarrow> h e w1 | (Inr x, w1) \<Rightarrow> try_except (k x) h w1)"
  by (simp add: try_except_def andthen_def split: prod.splits sum.splits)

lemma write_formats_first:
  "\<exists>rest. calls (snd (write_formats L C p od segs (f # fs) outs w))
            = calls w @ FormatSegments segs f # rest"
proof -
  let ?k = "\<lambda>u::unit. andthen (pure_call (formatter_format C segs f)) (\<lambda>body.
            andthen (in_fs (create_file L (path_join od (path_stem p @ ''.'' @ f)) (Text body))) (\<lambda>_.
            write_formats L C p od segs fs
              (dict_set f (path_join od (path_stem p @ ''.'' @ f)) outs)))"
  have "appends UNIV (?k ())"
    by (intro appends_intros appends_mono[OF appends_write_formats]) simp
  then obtain rest where
    "calls (snd (?k () (w\<lparr>calls := calls w @ [FormatSegments segs f]\<rparr>)))
       = calls (w\<lparr>calls := calls w @ [FormatSegments segs f]\<rparr>) @ rest"
    unfolding appends_def by blast
  moreover have "write_formats L C p od segs (f # fs) outs w
       = ?k () (w\<lparr>calls := calls w @ [FormatSegments segs f]\<rparr>)"
    by (simp add: Let_def andthen_def record_call_def)
  ultimately show ?thesis by simp
qed

lemma output_stage_formatter:
  "\<exists>new. calls (snd (try_except (output_stage L dt g p od info chosen tr pd qr) (log_and_fail p) w))
            = calls w @ new
         \<and> checks_in new = [] \<and> corrections_in new = []
         \<and> set (formatted_in new) \<subseteq> {segments pd}
         \<and> (formatted_in new \<noteq> []
              \<longleftrightarrow> (\<exists>fmts. cfg_output_formats (gen_config g) = Some fmts \<and> enabled fmts \<noteq> []))"
proof -
  let ?run = "try_except (output_stage L dt g p od info chosen tr pd qr) (log_and_fail p) w"
  obtain new where new: "calls (snd ?run) = calls w @ new"
      "set new \<subseteq> range (FormatSegments (segments pd)) \<union> {c. is_plain c}"
    using output_stage_calls by blast
  note rd = format_calls_read[OF new(2)]
  have "formatted_in new \<noteq> []
          \<longleftrightarrow> (\<exists>fmts. cfg_output_formats (gen_config g) = Some fmts \<and> enabled fmts \<noteq> [])"
  proof (cases "cfg_output_formats (gen_config g)")
    case None
    then have "calls (snd ?run) = calls w @ [LogError (KeyError ''output_formats'')]"
      by (simp add: output_stage_def section_of_def try_andthen_unfold pure_call_def
          log_and_fail_calls)
    then have "new = [LogError (KeyError ''output_formats'')]" using new(1) by simp
    then show ?thesis using None by simp
  next
    case (Some fmts)
    show ?thesis
    proof (cases "enabled fmts")
      case Nil
      let ?k = "\<lambda>outs. andthen (generate_report L dt
                   (path_join od (path_stem p @ ''_report.txt'')) info tr pd qr outs) (\<lambda>_.
                 ret (Success p outs (path_join od (path_stem p @ ''_report.txt'')) info
                   \<lparr>stats_words = length (case words pd of None \<Rightarrow> [] | Some ws \<Rightarrow> ws),
                    stats_segments = length (segments pd),
                    stats_provider = chosen,
                    stats_language = (case tr_language tr of None \<Rightarrow> ''unknown'' | Some l \<Rightarrow> l)\<rparr>
                   qr))"
      have "?run = try_except (?k []) (log_and_fail p) w"
        using Some Nil
        by (simp add: output_stage_def section_of_def try_andthen_unfold pure_call_def Let_def
            ret_def)
      moreover have "appends {c. is_plain c} (try_except (?k []) (log_and_fail p))"
        unfolding log_and_fail_def
        by (intro appends_intros appends_generate_report) simp
      ultimately have "\<exists>n2. calls (snd ?run) = calls w @ n2 \<and> set n2 \<subseteq> {c. is_plain c}"
        unfolding appends_def by metis
      then obtain n2 where "calls (snd ?run) = calls w @ n2" "set n2 \<subseteq> {c. is_plain c}"
        by blast
      then have "new = n2" "formatted_in n2 = []"
        using new(1) plain_calls_read by auto
      then show ?thesis using Some Nil by simp
    next
      case (Cons f fs)
      let ?wf = "write_formats L (gen_components g) p od (segments pd) (f # fs) []"
      obtain r1 w1 where wf: "?wf w = (r1, w1)" by (cases "?wf w")
      obtain rest where rest: "calls w1 = calls w @ FormatSegments (segments pd) f # rest"
        using write_formats_first[of L "gen_components g" p od "segments pd" f fs "[]" w] wf
        by auto
      have "\<exists>more. calls (snd ?run) = calls w1 @ more"
      proof (cases r1)
        case (Inl e)
        then have "?run = log_and_fail p e w1"
          using Some Cons wf
          by (simp add: output_stage_def section_of_def try_andthen_unfold pure_call_def)
        then show ?thesis by (simp add: log_and_fail_calls)
      next
        case (Inr outs)
        let ?k = "\<lambda>outs. andthen (generate_report L dt
                     (path_join od (path_stem p @ ''_report.txt'')) info tr pd qr outs) (\<lambda>_.
                   ret (Success p outs (path_join od (path_stem p @ ''_report.txt'')) info
                     \<lparr>stats_words = length (case words pd of None \<Rightarrow> [] | Some ws \<Rightarrow> ws),
                      stats_segments = length (segments pd),
                      stats_provider = chosen,
                      stats_language = (case tr_language tr of None \<Rightarrow> ''unknown'' | Some l \<Rightarrow> l)\<rparr>
                     qr))"
        have "?run = try_except (?k outs) (log_and_fail p) w1"
          using Some Cons wf Inr
          by (simp add: output_stage_def section_of_def try_andthen_unfold pure_call_def Let_def)
        moreover have "appends UNIV (try_except (?k outs) (log_and_fail p))"
          unfolding log_and_fail_def
          by (intro appends_intros appends_generate_report) simp
        ultimately show ?thesis unfolding appends_def by metis
      qed
      then obtain more where "calls (snd ?run) = calls w @ FormatSegments (segments pd) f # rest @ more"
        using rest by auto
      then have "new = FormatSegments (segments pd) f # rest @ more" using new(1) by simp
      then show ?thesis using Some Cons by simp
    qed
  qed
  then show ?thesis using new(1) rd by blast
qed

text \<open>
  Claim C3. Take a run of \<open>process_file\<close>, from any world, in which the stages up to the
  post-processing succeed and give the data \<open>pd\<close>, and the quality check of its segments
  returns the report \<open>qr\<close>. The stages before add no call of the checker or of the
  correction to the record. The first call after them is the quality check on the
  segments of \<open>pd\<close>, and the check is not called again. If \<open>total_issues > 0\<close> and there
  is at least one error, the next call is \<open>auto_correct\<close> on those segments, and it is the
  only call of the correction: if it raises, nothing is formatted and the file fails with
  that exception; if it returns \<open>segs\<close>, the run goes on to the output of the data with
  \<open>segs\<close> for segments, and every call of the formatter receives \<open>segs\<close>. Otherwise (no
  issue, or warnings only) the correction is not called, the run goes on to the output of
  \<open>pd\<close> as it was checked, and every call of the formatter receives its segments
  unchanged. In both cases the formatter is called when the configuration enables a
  format.
\<close>

theorem auto_correct_iff_errors:
  assumes ts: "transcription_stage L g p od lang prov w = (Inr (info, chosen, tr, pd), w1)"
      and qc: "quality_check (gen_components g) (segments pd) = Inr qr"
  shows "\<exists>pre rest.
           calls w1 = calls w @ pre \<and> checks_in pre = [] \<and> corrections_in pre = []
         \<and> calls (snd (process_file L dt g p od lang prov w))
             = calls w1 @ QualityCheck (segments pd) # rest
         \<and> checks_in rest = []
         \<and> (if 0 < total_issues qr \<and> errors qr \<noteq> []
            then take 1 rest = [AutoCorrect (segments pd)]
               \<and> corrections_in rest = [segments pd]
               \<and> (case auto_correct (gen_components g) (segments pd) of
                    Inl e \<Rightarrow>
                      formatted_in rest = []
                    \<and> fst (process_file L dt g p od lang prov w) = Inr (Failure (exc_str e) p)
                  | Inr segs \<Rightarrow>
                      set (formatted_in rest) \<subseteq> {segs}
                    \<and> (formatted_in rest \<noteq> []
                         \<longleftrightarrow> (\<exists>fmts. cfg_output_formats (gen_config g) = Some fmts
                                     \<and> enabled fmts \<noteq> []))
                    \<and> process_file L dt g p od lang prov w
                        = try_except
                            (output_stage L dt g p od info chosen tr (pd\<lparr>segments := segs\<rparr>) qr)
                            (log_and_fail p)
                            (w1\<lparr>calls := calls w1 @ [QualityCheck (segments pd),
                                                    AutoCorrect (segments pd)]\<rparr>))
            else corrections_in rest = []
               \<and> set (formatted_in rest) \<subseteq> {segments pd}
               \<and> (formatted_in rest \<noteq> []
                    \<longleftrightarrow> (\<exists>fmts. cfg_output_formats (gen_config g) = Some fmts
                                \<and> enabled fmts \<noteq> []))
               \<and> process_file L dt g p od lang prov w
                   = try_except (output_stage L dt g p od info chosen tr pd qr) (log_and_fail p)
                       (w1\<lparr>calls := calls w1 @ [QualityCheck (segments pd)]\<rparr>))"
proof -
  let ?w' = "snd (process_file L dt g p od lang prov w)"
  let ?C = "gen_components g"
  let ?s = "segments pd"
  obtain pre where pre: "calls w1 = calls w @ pre" "set pre \<subseteq> {c. is_plain c}"
    using appends_transcription_stage[of L g p od lang prov] ts
    unfolding appends_def by (metis snd_conv)
  note p0 = plain_calls_read[OF pre(2)]
  show ?thesis
  proof (cases "0 < total_issues qr \<and> errors qr \<noteq> []")
    case False
    let ?w2 = "w1\<lparr>calls := calls w1 @ [QualityCheck ?s]\<rparr>"
    have run: "process_file L dt g p od lang prov w
                 = try_except (output_stage L dt g p od info chosen tr pd qr) (log_and_fail p) ?w2"
      using ts by (simp add: process_file_unfold quality_stage_no_correction[OF qc False])
    obtain n3 where n3: "calls ?w' = calls ?w2 @ n3"
        "checks_in n3 = []" "corrections_in n3 = []" "set (formatted_in n3) \<subseteq> {?s}"
        "formatted_in n3 \<noteq> []
           \<longleftrightarrow> (\<exists>fmts. cfg_output_formats (gen_config g) = Some fmts \<and> enabled fmts \<noteq> [])"
      using output_stage_formatter[of L dt g p od info chosen tr pd qr ?w2] run by auto
    have c: "calls ?w' = calls w1 @ QualityCheck ?s # n3" using n3(1) by simp
    show ?thesis
      apply (rule exI[of _ pre], rule exI[of _ n3])
      using pre(1) p0 c n3(2-5) run False by simp
  next
    case True
    show ?thesis
    proof (cases "auto_correct ?C ?s")
      case (Inl e)
      have run: "process_file L dt g p od lang prov w
                   = log_and_fail p e (w1\<lparr>calls := calls w1 @ [QualityCheck ?s, AutoCorrect ?s]\<rparr>)"
        using ts by (simp add: process_file_unfold quality_stage_correction_fails[OF qc True Inl])
      have c: "calls ?w' = calls w1 @ QualityCheck ?s # [AutoCorrect ?s, LogError e]"
        unfolding run by (simp add: log_and_fail_calls)
      have f: "fst (process_file L dt g p od lang prov w) = Inr (Failure (exc_str e) p)"
        unfolding run by (simp add: log_and_fail_def andthen_def record_call_def ret_def)
      show ?thesis
        apply (rule exI[of _ pre], rule exI[of _ "[AutoCorrect ?s, LogError e]"])
        using pre(1) p0 c f True Inl by simp
    next
      case ac: (Inr segs)
      let ?w2 = "w1\<lparr>calls := calls w1 @ [QualityCheck ?s, AutoCorrect ?s]\<rparr>"
      have run: "process_file L dt g p od lang prov w
                   = try_except (output_stage L dt g p od info chosen tr
                                   (pd\<lparr>segments := segs\<rparr>) qr) (log_and_fail p) ?w2"
        using ts by (simp add: process_file_unfold quality_stage_corrected[OF qc True ac])
      obtain n3 where n3: "calls ?w' = calls ?w2 @ n3"
          "checks_in n3 = []" "corrections_in n3 = []" "set (formatted_in n3) \<subseteq> {segs}"
          "formatted_in n3 \<noteq> []
             \<longleftrightarrow> (\<exists>fmts. cfg_output_formats (gen_config g) = Some fmts \<and> enabled fmts \<noteq> [])"
        using output_stage_formatter[of L dt g p od info chosen tr "pd\<lparr>segments := segs\<rparr>" qr ?w2]
          run by auto
      have c: "calls ?w' = calls w1 @ QualityCheck ?s # AutoCorrect ?s # n3"
        using n3(1) by simp
      show ?thesis
        apply (rule exI[of _ pre], rule exI[of _ "AutoCorrect ?s # n3"])
        using pre(1) p0 c n3(2-5) run True ac by simp
    qed
  qed
qed

lemma demo_output_paths:
  "path_join ''out'' (path_stem ''talk.wav'' @ ''.'' @ ''srt'') = ''out/talk.srt''"
  "path_join ''out'' (path_stem ''talk.wav'' @ ''.srt'') = ''out/talk.srt''"
  "path_join ''out'' (path_stem ''talk.wav'' @ ''_report.txt'') = ''out/talk_report.txt''"
  "path_parent ''out/talk.srt'' = ''out''"
  "path_parent ''out/talk_report.txt'' = ''out''"
  "upper ''srt'' = ''SRT''"
  by code_simp+

lemma strict_stage1:
  "transcription_stage demo_libs strict_generator ''talk.wav'' ''out'' None ''auto''
       (demo_world\<lparr>calls := cs\<rparr>)
     = (Inr (InfoDict (demo_created\<lparr>processed_path := ''out/talk_prepared.wav''\<rparr>), ''nexara'',
             \<lparr>tr_provider = Some ''nexara'', tr_language = Some ''en'', raw_segments = demo_segments\<rparr>,
             \<lparr>segments = demo_segments, words = Some [''a'']\<rparr>),
        demo_world\<lparr>calls := cs @ [AudioProcess ''talk.wav'' ''out'',
          SelectProvider (3 / 2) (264644 / (1024 * 1024)),
          Transcribe ''out/talk_prepared.wav'' ''nexara'' None, PostProcess]\<rparr>)"
  by (simp add: transcription_stage_def strict_generator_def strict_components_def
      demo_components_def andthen_def in_fs_def
      mkdir_parents_def record_call_def ret_def pure_call_def subscript_def Let_def)
     (simp add: demo_libs_def demo_world_def demo_fs_def demo_created_def demo_out_dirs)

lemma demo_output_run:
  assumes "gen_config G = demo_config"
      and "formatter_format (gen_components G) = (\<lambda>_ _. Inr ''1'')"
  shows "fst (try_except
           (output_stage demo_libs True G ''talk.wav'' ''out''
              (InfoDict (demo_created\<lparr>processed_path := ''out/talk_prepared.wav''\<rparr>)) ''nexara''
              \<lparr>tr_provider = Some ''nexara'', tr_language = Some ''en'', raw_segments = demo_segments\<rparr>
              \<lparr>segments = segs, words = Some [''a'']\<rparr> qr)
           (log_and_fail ''talk.wav'') (demo_world\<lparr>calls := cs\<rparr>))
         = Inr (Success ''talk.wav'' [(''srt'', ''out/talk.srt'')] ''out/talk_report.txt''
              (InfoDict (demo_created\<lparr>processed_path := ''out/talk_prepared.wav''\<rparr>))
              \<lparr>stats_words = 1, stats_segments = length segs, stats_provider = ''nexara'',
               stats_language = ''en''\<rparr>
              qr)
     \<and> calls (snd (try_except
           (output_stage demo_libs True G ''talk.wav'' ''out''
              (InfoDict (demo_created\<lparr>processed_path := ''out/talk_prepared.wav''\<rparr>)) ''nexara''
              \<lparr>tr_provider = Some ''nexara'', tr_language = Some ''en'', raw_segments = demo_segments\<rparr>
              \<lparr>segments = segs, words = Some [''a'']\<rparr> qr)
           (log_and_fail ''talk.wav'') (demo_world\<lparr>calls := cs\<rparr>)))
         = cs @ [FormatSegments segs ''srt'']"
  using assms
  by (simp add: try_except_def andthen_def
         output_stage_def section_of_def pure_call_def Let_def demo_output_paths
         generate_report_def subscript_def record_call_def in_fs_def create_file_def ret_def)
     (simp add: demo_config_def demo_world_def
         demo_fs_def demo_libs_def demo_created_def demo_output_paths andthen_def
         record_call_def pure_call_def in_fs_def create_file_def ret_def Let_def)

theorem auto_correct_iff_errors_witness:
  "fst (process_file demo_libs True strict_generator ''talk.wav'' ''out'' None ''auto'' later_world)
     = Inr (Success ''talk.wav'' [(''srt'', ''out/talk.srt'')] ''out/talk_report.txt''
              (InfoDict (demo_created\<lparr>processed_path := ''out/talk_prepared.wav''\<rparr>))
              \<lparr>stats_words = 1, stats_segments = 1, stats_provider = ''nexara'',
               stats_language = ''en''\<rparr>
              strict_report)
   \<and> calls (snd (process_file demo_libs True strict_generator ''talk.wav'' ''out'' None ''auto''
                     later_world))
     = calls later_world @
       [AudioProcess ''talk.wav'' ''out'',
        SelectProvider (3 / 2) (264644 / (1024 * 1024)),
        Transcribe ''out/talk_prepared.wav'' ''nexara'' None, PostProcess,
        QualityCheck demo_segments, AutoCorrect demo_segments,
        FormatSegments repaired_segments ''srt'']
   \<and> calls (snd (process_file demo_libs True demo_generator ''talk.wav'' ''out'' None ''auto''
                     demo_world))
     = [AudioProcess ''talk.wav'' ''out'',
        SelectProvider (3 / 2) (264644 / (1024 * 1024)),
        Transcribe ''out/talk_prepared.wav'' ''nexara'' None, PostProcess,
        QualityCheck demo_segments, FormatSegments demo_segments ''srt'']"
proof -
  let ?info = "InfoDict (demo_created\<lparr>processed_path := ''out/talk_prepared.wav''\<rparr>)"
  let ?tr = "\<lparr>tr_provider = Some ''nexara'', tr_language = Some ''en'',
              raw_segments = demo_segments\<rparr>"
  let ?pd = "\<lparr>segments = demo_segments, words = Some [''a'']\<rparr>"
  let ?stage = "[AudioProcess ''talk.wav'' ''out'',
        SelectProvider (3 / 2) (264644 / (1024 * 1024)),
        Transcribe ''out/talk_prepared.wav'' ''nexara'' None, PostProcess]"
  have lw: "later_world = demo_world\<lparr>calls := calls later_world\<rparr>"
    by (simp add: later_world_def)
  have dw: "demo_world = demo_world\<lparr>calls := []\<rparr>" by (simp add: demo_world_def)
  have ts1: "transcription_stage demo_libs strict_generator ''talk.wav'' ''out'' None ''auto''
               later_world
             = (Inr (?info, ''nexara'', ?tr, ?pd),
                demo_world\<lparr>calls := calls later_world @ ?stage\<rparr>)"
    using strict_stage1[of "calls later_world"] lw by simp
  have qc1: "quality_check (gen_components strict_generator) (segments ?pd) = Inr strict_report"
    by (simp add: strict_generator_def strict_components_def)
  have ac1: "auto_correct (gen_components strict_generator) (segments ?pd) = Inr repaired_segments"
    by (simp add: strict_generator_def strict_components_def)
  have bad: "0 < total_issues strict_report \<and> errors strict_report \<noteq> []"
    by (simp add: strict_report_def)
  have run1: "process_file demo_libs True strict_generator ''talk.wav'' ''out'' None ''auto''
                later_world
              = try_except
                  (output_stage demo_libs True strict_generator ''talk.wav'' ''out'' ?info
                     ''nexara'' ?tr \<lparr>segments = repaired_segments, words = Some [''a'']\<rparr>
                     strict_report)
                  (log_and_fail ''talk.wav'')
                  (demo_world\<lparr>calls := calls later_world @ ?stage
                                 @ [QualityCheck demo_segments, AutoCorrect demo_segments]\<rparr>)"
    using auto_correct_iff_errors[OF ts1 qc1, of True] bad ac1 by auto
  have ts2: "transcription_stage demo_libs demo_generator ''talk.wav'' ''out'' None ''auto''
               demo_world
             = (Inr (?info, ''nexara'', ?tr, ?pd), demo_world\<lparr>calls := [] @ ?stage\<rparr>)"
    using demo_stage1[of demo_config "[]"] dw by (simp add: demo_generator_def)
  have qc2: "quality_check (gen_components demo_generator) (segments ?pd) = Inr demo_report"
    by (simp add: demo_generator_def demo_components_def)
  have good: "\<not> (0 < total_issues demo_report \<and> errors demo_report \<noteq> [])"
    by (simp add: demo_report_def)
  have run2: "process_file demo_libs True demo_generator ''talk.wav'' ''out'' None ''auto''
                demo_world
              = try_except
                  (output_stage demo_libs True demo_generator ''talk.wav'' ''out'' ?info
                     ''nexara'' ?tr ?pd demo_report)
                  (log_and_fail ''talk.wav'')
                  (demo_world\<lparr>calls := ?stage @ [QualityCheck demo_segments]\<rparr>)"
    using auto_correct_iff_errors[OF ts2 qc2, of True] good by auto
  have g1: "gen_config strict_generator = demo_config"
     "formatter_format (gen_components strict_generator) = (\<lambda>_ _. Inr ''1'')"
    by (simp_all add: strict_generator_def strict_components_def demo_components_def)
  have g2: "gen_config demo_generator = demo_config"
     "formatter_format (gen_components demo_generator) = (\<lambda>_ _. Inr ''1'')"
    by (simp_all add: demo_generator_def demo_components_def)
  show ?thesis
    unfolding run1 run2
    by (simp add: demo_output_run[OF g1] demo_output_run[OF g2] repaired_segments_def)
qed

text \<open>
  When there is no report, because a stage before the check raised or the check itself
  did, the correction and the formatter are not called and the file fails.
\<close>

lemma no_report_no_correction:
  assumes "fst (transcription_stage L g p od lang prov w) = Inl e
         \<or> (\<exists>info chosen tr pd.
              fst (transcription_stage L g p od lang prov w) = Inr (info, chosen, tr, pd)
            \<and> quality_check (gen_components g) (segments pd) = Inl e)"
  shows "\<exists>new. calls (snd (process_file L dt g p od lang prov w)) = calls w @ new
             \<and> corrections_in new = [] \<and> formatted_in new = []
             \<and> fst (process_file L dt g p od lang prov w) = Inr (Failure (exc_str e) p)"
proof -
  obtain r1 w1 where ts: "transcription_stage L g p od lang prov w = (r1, w1)"
    by (cases "transcription_stage L g p od lang prov w")
  obtain pre where pre: "calls w1 = calls w @ pre" "set pre \<subseteq> {c. is_plain c}"
    using appends_transcription_stage[of L g p od lang prov] ts
    unfolding appends_def by (metis snd_conv)
  note p0 = plain_calls_read[OF pre(2)]
  have fail: "fst (log_and_fail p e v) = Inr (Failure (exc_str e) p)" for v
    by (simp add: log_and_fail_def andthen_def record_call_def ret_def)
  from assms show ?thesis
  proof
    assume "fst (transcription_stage L g p od lang prov w) = Inl e"
    then have run: "process_file L dt g p od lang prov w = log_and_fail p e w1"
      using ts by (simp add: process_file_unfold)
    have "calls (snd (process_file L dt g p od lang prov w)) = calls w @ (pre @ [LogError e])"
      unfolding run using pre(1) by (simp add: log_and_fail_calls)
    moreover have "corrections_in (pre @ [LogError e]) = []" "formatted_in (pre @ [LogError e]) = []"
      using p0 by (simp_all add: corrections_in_append formatted_in_append)
    ultimately show ?thesis using fail run by metis
  next
    assume "\<exists>info chosen tr pd.
              fst (transcription_stage L g p od lang prov w) = Inr (info, chosen, tr, pd)
            \<and> quality_check (gen_components g) (segments pd) = Inl e"
    then obtain info chosen tr pd where r1: "r1 = Inr (info, chosen, tr, pd)"
        and qc: "quality_check (gen_components g) (segments pd) = Inl e"
      using ts by auto
    have run: "process_file L dt g p od lang prov w
                 = log_and_fail p e (w1\<lparr>calls := calls w1 @ [QualityCheck (segments pd)]\<rparr>)"
      using ts r1 by (simp add: process_file_unfold quality_stage_check_fails[OF qc])
    have "calls (snd (process_file L dt g p od lang prov w))
            = calls w @ (pre @ [QualityCheck (segments pd), LogError e])"
      unfolding run using pre(1) by (simp add: log_and_fail_calls)
    moreover have "corrections_in (pre @ [QualityCheck (segments pd), LogError e]) = []"
        "formatted_in (pre @ [QualityCheck (segments pd), LogError e]) = []"
      using p0 by (simp_all add: corrections_in_append formatted_in_append)
    ultimately show ?thesis using fail run by metis
  qed
qed

text \<open>
  The scenario of the specification: one segment from 0.0 to 0.5, a report with the one
  warning \<open>too-short-duration\<close> and no error. The file goes through, the correction is
  not called, and the formatter receives the segment as it was checked.
\<close>

lemma demo_full_run:
  "fst (process_file demo_libs True demo_generator ''talk.wav'' ''out'' None ''auto'' demo_world)
     = Inr (Success ''talk.wav'' [(''srt'', ''out/talk.srt'')] ''out/talk_report.txt''
              (InfoDict (demo_created\<lparr>processed_path := ''out/talk_prepared.wav''\<rparr>))
              \<lparr>stats_words = 1, stats_segments = 1, stats_provider = ''nexara'',
               stats_language = ''en''\<rparr>
              demo_report)
   \<and> calls (snd (process_file demo_libs True demo_generator ''talk.wav'' ''out'' None ''auto'' demo_world))
     = [AudioProcess ''talk.wav'' ''out'',
        SelectProvider (3 / 2) (264644 / (1024 * 1024)),
        Transcribe ''out/talk_prepared.wav'' ''nexara'' None, PostProcess,
        QualityCheck demo_segments, FormatSegments demo_segments ''srt'']"
proof -
  have w: "demo_world\<lparr>calls := []\<rparr> = demo_world" by (simp add: demo_world_def)
  have s1: "transcription_stage demo_libs demo_generator ''talk.wav'' ''out'' None ''auto'' demo_world
     = (Inr (InfoDict (demo_created\<lparr>processed_path := ''out/talk_prepared.wav''\<rparr>), ''nexara'',
             \<lparr>tr_provider = Some ''nexara'', tr_language = Some ''en'', raw_segments = demo_segments\<rparr>,
             \<lparr>segments = demo_segments, words = Some [''a'']\<rparr>),
        demo_world\<lparr>calls := [AudioProcess ''talk.wav'' ''out'',
          SelectProvider (3 / 2) (264644 / (1024 * 1024)),
          Transcribe ''out/talk_prepared.wav'' ''nexara'' None, PostProcess]\<rparr>)"
    using demo_stage1[of demo_config "[]"] by (simp add: w demo_generator_def)
  have s2: "quality_stage demo_generator \<lparr>segments = demo_segments, words = Some [''a'']\<rparr> w
     = (Inr (demo_report, \<lparr>segments = demo_segments, words = Some [''a'']\<rparr>),
        w\<lparr>calls := calls w @ [QualityCheck demo_segments]\<rparr>)" for w
    using demo_stage2[of demo_config] by (simp add: demo_generator_def)
  show ?thesis
    by (simp add: process_file_def process_file_body_def try_except_def andthen_def s1 s2
         output_stage_def section_of_def pure_call_def Let_def demo_output_paths
         generate_report_def subscript_def record_call_def in_fs_def create_file_def ret_def)
       (simp add: demo_generator_def demo_config_def demo_components_def demo_world_def
         demo_fs_def demo_libs_def demo_created_def demo_output_paths andthen_def
         record_call_def pure_call_def in_fs_def create_file_def ret_def Let_def
         demo_segments_def demo_report_def)
qed

subsection \<open>The default configuration\<close>

lemma output_stage_default:
  "gen_config g = get_default_config \<Longrightarrow>
   output_stage L dt g p od info chosen tr pd qr w = (Inl (KeyError ''output_formats''), w)"
  by (simp add: output_stage_def default_config_no_formats andthen_def pure_call_def)

lemma body_fails_by_default:
  assumes "gen_config g = get_default_config"
  shows "\<exists>e w'. process_file_body L dt g p od lang prov w = (Inl e, w')"
proof -
  obtain r1 w1 where s1: "transcription_stage L g p od lang prov w = (r1, w1)"
    by (cases "transcription_stage L g p od lang prov w")
  show ?thesis
  proof (cases r1)
    case (Inl e)
    then show ?thesis using s1 by (simp add: process_file_body_def andthen_def)
  next
    case (Inr x)
    obtain info chosen tr pd where x: "x = (info, chosen, tr, pd)" by (cases x) auto
    obtain r2 w2 where s2: "quality_stage g pd w1 = (r2, w2)"
      by (cases "quality_stage g pd w1")
    show ?thesis
    proof (cases r2)
      case (Inl e)
      then show ?thesis using s1 Inr x s2 by (simp add: process_file_body_def andthen_def)
    next
      case i2: (Inr y)
      obtain qr pd' where y: "y = (qr, pd')" by (cases y)
      show ?thesis
        using s1 Inr x s2 i2 y
        by (simp add: process_file_body_def andthen_def output_stage_default[OF assms])
    qed
  qed
qed

lemma body_reaches_formats:
  assumes "gen_config g = get_default_config"
    and "transcription_stage L g p od lang prov w = (Inr (info, chosen, tr, pd), w1)"
    and "quality_stage g pd w1 = (Inr (qr, pd'), w2)"
  shows "process_file_body L dt g p od lang prov w = (Inl (KeyError ''output_formats''), w2)"
  using assms(2,3)
  by (simp add: process_file_body_def andthen_def output_stage_default[OF assms(1)])

lemma process_default_config:
  assumes cfg: "ap_config ap = get_default_config"
    and sup: "is_supported_format p"
    and an: "analyze_audio L p f = (Inr info, f')"
    and src: "is_video_file p \<or> (\<exists>a. from_file L p = Inr a)"
  shows "process L ap p od f = (Inl (KeyError ''audio_preprocessing''), f)"
proof -
  have f': "f' = f" using analyze_audio_Inr[OF an] by simp
  have k: "section_of ''audio_preprocessing'' (cfg_audio_preprocessing (ap_config ap))
             = Inl (KeyError ''audio_preprocessing'')"
    by (simp add: cfg section_of_def get_default_config_def)
  have ex: "extract_audio_from_video L ap p od f = (Inl (KeyError ''audio_preprocessing''), f)"
    by (simp add: extract_audio_from_video_def Let_def try_except_reraise andthen_def
        pure_call_def k)
  have pr: "prepare_audio_file L ap p od f = (Inl (KeyError ''audio_preprocessing''), f)"
    if "from_file L p = Inr a" for a
    using that
    by (simp add: prepare_audio_file_def Let_def try_except_reraise andthen_def
        pure_call_def k)
  show ?thesis
    using sup an f' src ex pr by (auto simp: process_def andthen_def)
qed

text \<open>
  Claim C8, as amended. The default configuration holds \<open>subtitle_settings\<close> only (42, 2,
  1.0 and 4.0), with no \<open>audio_preprocessing\<close> and no \<open>output_formats\<close>. With it, every
  call of \<open>process_file\<close> returns a failure. The exception behind the failure is the
  \<open>KeyError\<close> of \<open>output_formats\<close> when the stages up to the quality check go through; it is
  the \<open>KeyError\<close> of \<open>audio_preprocessing\<close> when the audio processor is the one of
  obrabotka.py with the default configuration, the output directory can be made, the
  format is supported, the analysis of the file succeeds and the file is a video or can
  be loaded. When a step before the lookup fails, its exception is the one caught.
\<close>

theorem default_config_always_fails:
  "cfg_subtitle_settings get_default_config
     = Some \<lparr>max_chars_per_line = 42, max_lines = 2, min_duration = 1, max_duration = 4\<rparr>
 \<and> cfg_audio_preprocessing get_default_config = None
 \<and> cfg_output_formats get_default_config = None
 \<and> (gen_config g = get_default_config \<longrightarrow>
       (\<exists>e w'. process_file_body L dt g p od lang prov w = (Inl e, w')
              \<and> process_file L dt g p od lang prov w
                  = (Inr (Failure (exc_str e) p), w'\<lparr>calls := calls w' @ [LogError e]\<rparr>)))
 \<and> (\<forall>info chosen tr pd w1 qr pd' w2.
       gen_config g = get_default_config
       \<and> transcription_stage L g p od lang prov w = (Inr (info, chosen, tr, pd), w1)
       \<and> quality_stage g pd w1 = (Inr (qr, pd'), w2)
       \<longrightarrow> process_file L dt g p od lang prov w
             = (Inr (Failure (py_repr ''output_formats'') p),
                w2\<lparr>calls := calls w2 @ [LogError (KeyError ''output_formats'')]\<rparr>))
 \<and> (\<forall>info f' C.
       ap_config ap = get_default_config
       \<and> gen_components g = with_audio_processor L ap C
       \<and> mkdir_err L od = None
       \<and> is_supported_format p
       \<and> analyze_audio L p (fsys w\<lparr>dirs := dirs (fsys w) \<union> set (path_ancestors od)\<rparr>) = (Inr info, f')
       \<and> (is_video_file p \<or> (\<exists>a. from_file L p = Inr a))
       \<longrightarrow> process_file L dt g p od lang prov w
             = (Inr (Failure (py_repr ''audio_preprocessing'') p),
                w\<lparr>fsys := fsys w\<lparr>dirs := dirs (fsys w) \<union> set (path_ancestors od)\<rparr>,
                  calls := calls w @ [AudioProcess p od,
                                      LogError (KeyError ''audio_preprocessing'')]\<rparr>))"
proof (intro conjI allI impI)
  show "cfg_subtitle_settings get_default_config
     = Some \<lparr>max_chars_per_line = 42, max_lines = 2, min_duration = 1, max_duration = 4\<rparr>"
    "cfg_audio_preprocessing get_default_config = None"
    "cfg_output_formats get_default_config = None"
    by (simp_all add: get_default_config_def)
next
  assume d: "gen_config g = get_default_config"
  obtain e w' where b: "process_file_body L dt g p od lang prov w = (Inl e, w')"
    using body_fails_by_default[OF d] by blast
  then have "process_file L dt g p od lang prov w
                  = (Inr (Failure (exc_str e) p), w'\<lparr>calls := calls w' @ [LogError e]\<rparr>)"
    by (simp add: process_file_def try_except_caught log_and_fail_def andthen_def
        record_call_def ret_def)
  with b show "\<exists>e w'. process_file_body L dt g p od lang prov w = (Inl e, w')
              \<and> process_file L dt g p od lang prov w
                  = (Inr (Failure (exc_str e) p), w'\<lparr>calls := calls w' @ [LogError e]\<rparr>)"
    by blast
next
  fix info chosen tr pd w1 qr pd' w2
  assume h: "gen_config g = get_default_config
       \<and> transcription_stage L g p od lang prov w = (Inr (info, chosen, tr, pd), w1)
       \<and> quality_stage g pd w1 = (Inr (qr, pd'), w2)"
  then have "process_file_body L dt g p od lang prov w = (Inl (KeyError ''output_formats''), w2)"
    using body_reaches_formats by blast
  then show "process_file L dt g p od lang prov w
             = (Inr (Failure (py_repr ''output_formats'') p),
                w2\<lparr>calls := calls w2 @ [LogError (KeyError ''output_formats'')]\<rparr>)"
    by (simp add: process_file_def try_except_caught log_and_fail_def andthen_def
        record_call_def ret_def KeyError_def)
next
  fix info f' C
  assume h: "ap_config ap = get_default_config
       \<and> gen_components g = with_audio_processor L ap C
       \<and> mkdir_err L od = None
       \<and> is_supported_format p
       \<and> analyze_audio L p (fsys w\<lparr>dirs := dirs (fsys w) \<union> set (path_ancestors od)\<rparr>) = (Inr info, f')
       \<and> (is_video_file p \<or> (\<exists>a. from_file L p = Inr a))"
  let ?f = "fsys w\<lparr>dirs := dirs (fsys w) \<union> set (path_ancestors od)\<rparr>"
  have pr: "process L ap p (Some od) ?f = (Inl (KeyError ''audio_preprocessing''), ?f)"
    using h process_default_config by blast
  have "transcription_stage L g p od lang prov w
          = (Inl (KeyError ''audio_preprocessing''),
             w\<lparr>fsys := ?f, calls := calls w @ [AudioProcess p od]\<rparr>)"
    using h pr
    by (simp add: transcription_stage_def Let_def andthen_def in_fs_def mkdir_parents_def
        record_call_def with_audio_processor_def)
  then have "process_file_body L dt g p od lang prov w
          = (Inl (KeyError ''audio_preprocessing''),
             w\<lparr>fsys := ?f, calls := calls w @ [AudioProcess p od]\<rparr>)"
    by (simp add: process_file_body_def andthen_def)
  then show "process_file L dt g p od lang prov w
             = (Inr (Failure (py_repr ''audio_preprocessing'') p),
                w\<lparr>fsys := ?f,
                  calls := calls w @ [AudioProcess p od,
                                      LogError (KeyError ''audio_preprocessing'')]\<rparr>)"
    by (simp add: process_file_def try_except_caught log_and_fail_def andthen_def
        record_call_def ret_def KeyError_def)
qed


lemma demo_analyze_any: "analyze_audio demo_libs ''talk.wav'' f = (Inr demo_created, f)"
  by (simp add: analyze_audio_def try_except_def andthen_def pure_call_def ret_def
      demo_libs_def demo_created_def)

lemma demo_world_after_mkdir:
  "demo_world\<lparr>fsys := fsys demo_world\<lparr>dirs := dirs (fsys demo_world) \<union> set (path_ancestors ''out'')\<rparr>,
              calls := calls demo_world @ cs\<rparr> = demo_world\<lparr>calls := cs\<rparr>"
  by (simp add: demo_world_def demo_fs_def demo_out_dirs)

theorem default_config_always_fails_witness:
  "process_file demo_libs True
     \<lparr>gen_config = get_default_config,
      gen_components = with_audio_processor demo_libs default_ap demo_components\<rparr>
     ''talk.wav'' ''out'' None ''auto'' demo_world
   = (Inr (Failure (py_repr ''audio_preprocessing'') ''talk.wav''),
      demo_world\<lparr>calls := [AudioProcess ''talk.wav'' ''out'',
                              LogError (KeyError ''audio_preprocessing'')]\<rparr>)"
proof -
  let ?g = "\<lparr>gen_config = get_default_config,
      gen_components = with_audio_processor demo_libs default_ap demo_components\<rparr>"
  let ?f = "fsys demo_world\<lparr>dirs := dirs (fsys demo_world) \<union> set (path_ancestors ''out'')\<rparr>"
  have H: "ap_config default_ap = get_default_config
       \<and> gen_components ?g = with_audio_processor demo_libs default_ap demo_components
       \<and> mkdir_err demo_libs ''out'' = None
       \<and> is_supported_format ''talk.wav''
       \<and> analyze_audio demo_libs ''talk.wav'' ?f = (Inr demo_created, ?f)
       \<and> (is_video_file ''talk.wav'' \<or> (\<exists>a. from_file demo_libs ''talk.wav'' = Inr a))"
  proof -
    have h1: "ap_config default_ap = get_default_config" by (simp add: default_ap_def)
    have h2: "gen_components ?g = with_audio_processor demo_libs default_ap demo_components"
      by simp
    have h3: "mkdir_err demo_libs ''out'' = None" by (simp add: demo_libs_def)
    have h4: "is_supported_format ''talk.wav''" by (rule demo_supported)
    have h5: "analyze_audio demo_libs ''talk.wav'' ?f = (Inr demo_created, ?f)"
      by (rule demo_analyze_any)
    have h6: "is_video_file ''talk.wav'' \<or> (\<exists>a. from_file demo_libs ''talk.wav'' = Inr a)"
      by (simp add: demo_libs_def)
    show ?thesis by (intro conjI h1 h2 h3 h4 h5 h6)
  qed
  note T = default_config_always_fails[of ?g demo_libs True "''talk.wav''" "''out''" None
      "''auto''" demo_world default_ap]
  have "process_file demo_libs True ?g ''talk.wav'' ''out'' None ''auto'' demo_world
      = (Inr (Failure (py_repr ''audio_preprocessing'') ''talk.wav''),
         demo_world\<lparr>fsys := ?f,
           calls := calls demo_world @ [AudioProcess ''talk.wav'' ''out'',
                                        LogError (KeyError ''audio_preprocessing'')]\<rparr>)"
    by (rule T[THEN conjunct2, THEN conjunct2, THEN conjunct2, THEN conjunct2, THEN conjunct2,
          rule_format, OF H])
  then show ?thesis by (simp only: demo_world_after_mkdir)
qed

lemma process_file_audio_fails:
  assumes "mkdir_err L od = None"
    and "audio_process (gen_components g) p od
           (fsys w\<lparr>dirs := dirs (fsys w) \<union> set (path_ancestors od)\<rparr>) = (Inl e, f)"
  shows "process_file L dt g p od lang prov w
           = (Inr (Failure (exc_str e) p),
              w\<lparr>fsys := f, calls := calls w @ [AudioProcess p od, LogError e]\<rparr>)"
proof -
  have "transcription_stage L g p od lang prov w
          = (Inl e, w\<lparr>fsys := f, calls := calls w @ [AudioProcess p od]\<rparr>)"
    using assms
    by (simp add: transcription_stage_def Let_def andthen_def in_fs_def mkdir_parents_def
        record_call_def)
  then have "process_file_body L dt g p od lang prov w
          = (Inl e, w\<lparr>fsys := f, calls := calls w @ [AudioProcess p od]\<rparr>)"
    by (simp add: process_file_body_def andthen_def)
  then show ?thesis
    by (simp add: process_file_def try_except_caught log_and_fail_def andthen_def
        record_call_def ret_def)
qed

text \<open>
  Claim C8 as stated fails where it says that every call raises a \<open>KeyError\<close>: for a file
  whose format is not supported, \<open>process\<close> raises its \<open>ValueError\<close> before any lookup in
  the configuration, and that is the exception \<open>process_file\<close> catches.
\<close>

lemma notes_unsupported: "\<not> is_supported_format ''notes.txt''"
  by code_simp

theorem default_config_other_error_counterexample:
  "process_file demo_libs True
     \<lparr>gen_config = get_default_config,
      gen_components = with_audio_processor demo_libs default_ap demo_components\<rparr>
     ''notes.txt'' ''out'' None ''auto'' demo_world
   = (Inr (Failure (unsupported_format_label @ ''notes.txt'') ''notes.txt''),
      demo_world\<lparr>calls := [AudioProcess ''notes.txt'' ''out'',
                              LogError (PyExc ''ValueError'' (unsupported_format_label @ ''notes.txt''))]\<rparr>)
   \<and> PyExc ''ValueError'' (unsupported_format_label @ ''notes.txt'') \<noteq> KeyError ''audio_preprocessing''
   \<and> PyExc ''ValueError'' (unsupported_format_label @ ''notes.txt'') \<noteq> KeyError ''output_formats''"
proof -
  let ?g = "\<lparr>gen_config = get_default_config,
      gen_components = with_audio_processor demo_libs default_ap demo_components\<rparr>"
  let ?f = "fsys demo_world\<lparr>dirs := dirs (fsys demo_world) \<union> set (path_ancestors ''out'')\<rparr>"
  have p: "process demo_libs default_ap ''notes.txt'' (Some ''out'') ?f
             = (Inl (unsupported_format ''notes.txt''), ?f)"
    by (simp add: process_def notes_unsupported raise_exc_def)
  have a: "audio_process (gen_components ?g) ''notes.txt'' ''out'' ?f
             = (Inl (unsupported_format ''notes.txt''), ?f)"
    by (simp add: with_audio_processor_def andthen_def p)
  have m: "mkdir_err demo_libs ''out'' = None" by (simp add: demo_libs_def)
  have "process_file demo_libs True ?g ''notes.txt'' ''out'' None ''auto'' demo_world
      = (Inr (Failure (exc_str (unsupported_format ''notes.txt'')) ''notes.txt''),
         demo_world\<lparr>fsys := ?f,
           calls := calls demo_world @ [AudioProcess ''notes.txt'' ''out'',
                                        LogError (unsupported_format ''notes.txt'')]\<rparr>)"
    by (rule process_file_audio_fails[OF m a])
  then show ?thesis
    by (simp only: demo_world_after_mkdir) (simp add: unsupported_format_def KeyError_def)
qed

section \<open>The temporary directory\<close>

subsection \<open>What a statement keeps\<close>











subsection \<open>The directories stay\<close>



























subsection \<open>Batch processing: one result per matched file, and the report\<close>

lemma output_stage_Inr:
  "output_stage L dt g p od info chosen tr pd qr w = (Inr r, w') \<Longrightarrow>
     input_file r = p \<and> success r"
  by (auto simp: output_stage_def andthen_Inr pure_call_Inr ret_Inr Let_def)

lemma process_file_body_Inr:
  "process_file_body L dt g p od lang prov w = (Inr r, w') \<Longrightarrow> input_file r = p \<and> success r"
  by (auto simp: process_file_body_def andthen_Inr split: prod.splits dest: output_stage_Inr)

lemma process_file_input_file:
  assumes "process_file L dt g p od lang prov w = (Inr r, w')"
  shows "input_file r = p"
proof (cases "process_file_body L dt g p od lang prov w")
  case (Pair b w1)
  show ?thesis
  proof (cases b)
    case (Inl e)
    then show ?thesis
      using assms Pair
      by (auto simp: process_file_def try_except_def log_and_fail_def andthen_def
          record_call_def ret_def)
  next
    case (Inr x)
    then show ?thesis
      using assms Pair process_file_body_Inr[of L dt g p od lang prov w x w1]
      by (auto simp: process_file_def try_except_def)
  qed
qed

lemma process_matches_results:
  "\<exists>rs w'. process_matches L dt g od paths rs0 w = (Inr (rs0 @ rs), w')
           \<and> map input_file rs = filter (is_file_fn L) paths"
proof (induction paths arbitrary: rs0 w)
  case Nil
  show ?case by (simp add: ret_def)
next
  case (Cons q paths)
  show ?case
  proof (cases "is_file_fn L q")
    case False
    then show ?thesis using Cons.IH[of rs0 w] by simp
  next
    case True
    obtain r w1 where p: "process_file L dt g q (path_join od (path_stem q)) None ''auto'' w = (Inr r, w1)"
      using process_file_returns by blast
    have q: "input_file r = q" using process_file_input_file[OF p] .
    from Cons.IH[of "rs0 @ [r]" w1] obtain rs w' where
      "process_matches L dt g od paths (rs0 @ [r]) w1 = (Inr ((rs0 @ [r]) @ rs), w')"
      "map input_file rs = filter (is_file_fn L) paths"
      by blast
    then have "process_matches L dt g od (q # paths) rs0 w = (Inr (rs0 @ (r # rs)), w')
               \<and> map input_file (r # rs) = filter (is_file_fn L) (q # paths)"
      using True p q by (simp add: andthen_def)
    then show ?thesis by blast
  qed
qed

lemma process_patterns_results:
  "\<exists>rs w'. process_patterns L dt g d od patterns rs0 w = (Inr (rs0 @ rs), w')
           \<and> map input_file rs
               = filter (is_file_fn L) (concat (map (glob_fn L d) patterns))"
proof (induction patterns arbitrary: rs0 w)
  case Nil
  show ?case by (simp add: ret_def)
next
  case (Cons q patterns)
  obtain rs1 w1 where 1:
    "process_matches L dt g od (glob_fn L d q) rs0 w = (Inr (rs0 @ rs1), w1)"
    "map input_file rs1 = filter (is_file_fn L) (glob_fn L d q)"
    using process_matches_results by blast
  from Cons.IH[of "rs0 @ rs1" w1] obtain rs2 w2 where 2:
    "process_patterns L dt g d od patterns (rs0 @ rs1) w1 = (Inr ((rs0 @ rs1) @ rs2), w2)"
    "map input_file rs2 = filter (is_file_fn L) (concat (map (glob_fn L d) patterns))"
    by blast
  have "process_patterns L dt g d od (q # patterns) rs0 w = (Inr (rs0 @ (rs1 @ rs2)), w2)
        \<and> map input_file (rs1 @ rs2)
            = filter (is_file_fn L) (concat (map (glob_fn L d) (q # patterns)))"
    using 1 2 by (simp add: andthen_def)
  then show ?case by blast
qed

lemma batch_report_lines_content:
  assumes "batch_report_lines results = Inr ls"
  shows "TotalFiles (length results) \<in> set ls
       \<and> Succeeded (length (filter success results)) \<in> set ls
       \<and> WithErrors (length (filter (\<lambda>r. \<not> success r) results)) \<in> set ls
       \<and> (\<forall>r \<in> set results. \<not> success r \<longrightarrow> FailureLine (input_file r) (error r) \<in> set ls)"
proof -
  have none: "filter (\<lambda>r. \<not> success r) results = [] \<Longrightarrow> r \<in> set results \<Longrightarrow> success r" for r
    by (auto simp: filter_empty_conv)
  show ?thesis
    using assms
    by (auto simp: batch_report_lines_def Let_def split: if_splits sum.splits dest: none)
qed

lemma batch_report_lines_all_failed:
  "filter success results = [] \<Longrightarrow> \<exists>ls. batch_report_lines results = Inr ls"
  by (simp add: batch_report_lines_def Let_def)

text \<open>
  The loops of \<open>batch_process\<close> never raise and give
  one result per file that a pattern matches, in order, whether the files fail or not.
  When \<open>batch_process\<close> returns, the last file written is the aggregate report, with
  the three counts and one line per failed file, giving its path and its error.
\<close>

lemma batch_process_when_it_returns:
  assumes "batch_process L dt g d od pats w = (Inr results, w')"
  shows "map input_file results
           = filter (is_file_fn L)
               (concat (map (glob_fn L d) (case pats of None \<Rightarrow> default_patterns | Some ps \<Rightarrow> ps)))
       \<and> (\<exists>ls. files (fsys w') \<noteq> []
              \<and> last (files (fsys w')) = (batch_report_path od, BatchReport ls)
              \<and> TotalFiles (length results) \<in> set ls
              \<and> Succeeded (length (filter success results)) \<in> set ls
              \<and> WithErrors (length (filter (\<lambda>r. \<not> success r) results)) \<in> set ls
              \<and> (\<forall>r \<in> set results. \<not> success r \<longrightarrow>
                    FailureLine (input_file r) (error r) \<in> set ls))"
proof -
  let ?ps = "case pats of None \<Rightarrow> default_patterns | Some ps \<Rightarrow> ps"
  obtain rs w1 where 1:
    "process_patterns L dt g d od ?ps [] w = (Inr rs, w1)"
    "map input_file rs = filter (is_file_fn L) (concat (map (glob_fn L d) ?ps))"
    using process_patterns_results[of L dt g d od ?ps "[]" w] by auto
  have 2: "generate_batch_report L rs od w1 = (Inr (), w') \<and> results = rs"
    using assms 1(1)
    by (auto simp: batch_process_def Let_def andthen_def ret_def split: prod.splits sum.splits)
  then obtain ls where 3: "batch_report_lines rs = Inr ls"
    and 4: "fsys w' = (fsys w1)\<lparr>files := files (fsys w1) @ [(batch_report_path od, BatchReport ls)]\<rparr>"
    by (auto simp: generate_batch_report_def andthen_def pure_call_def in_fs_def
        create_file_def split: sum.splits prod.splits if_splits option.splits)
  show ?thesis
    using 1(2) 2 4 batch_report_lines_content[OF 3] by simp
qed

end
